theory Spec2Isabelle
  imports
    Main
    "HOL-Library.AList"
    "HOL-Library.Char_ord"
    "HOL-Library.List_Lexorder"
begin

section \<open>Python values\<close>

text \<open>
  The pipeline passes untyped results around. \<open>json\<close> are the values \<^verbatim>\<open>json.load\<close>
  can return, and the documents it reads them from. A dictionary is an association list in
  insertion order (Python dictionaries keep it; keys are strings, as JSON has them);
  \<open>JNull\<close> is Python's \<^verbatim>\<open>None\<close>. Floating-point numbers are left out. A \<open>char\<close>
  stands for one character of a Python string (code points below 256).
\<close>

datatype json =
    JNull
  | JBool bool
  | JInt int
  | JStr string
  | JList "json list"
  | JObj "(string \<times> json) list"

text \<open>
  An exception is kept as its class and the text \<^verbatim>\<open>str(e)\<close> gives for it (for a
  \<^verbatim>\<open>KeyError\<close> that text is the \<^verbatim>\<open>repr\<close> of the key). The last two classes derive
  from \<^verbatim>\<open>BaseException\<close> only: \<^verbatim>\<open>asyncio.CancelledError\<close>, raised in a coroutine that
  is cancelled, and \<^verbatim>\<open>KeyboardInterrupt\<close>. An \<^verbatim>\<open>except Exception\<close> clause does not
  catch them.
\<close>

datatype exn =
    GateError string
  | TypeError string
  | AttributeError string
  | KeyError string
  | ValueError string
  | FileNotFoundError string
  | RuntimeError string
  | CancelledError string
  | KeyboardInterrupt string

text \<open>A string between single quotes, as Python's messages have them.\<close>

definition squote :: "string \<Rightarrow> string" where
  "squote s = [CHR 0x27] @ s @ [CHR 0x27]"

text \<open>\<^verbatim>\<open>str(e)\<close>, and \<^verbatim>\<open>isinstance(e, Exception)\<close>.\<close>

fun str_exn :: "exn \<Rightarrow> string" where
  "str_exn (GateError m) = m"
| "str_exn (TypeError m) = m"
| "str_exn (AttributeError m) = m"
| "str_exn (KeyError m) = m"
| "str_exn (ValueError m) = m"
| "str_exn (FileNotFoundError m) = m"
| "str_exn (RuntimeError m) = m"
| "str_exn (CancelledError m) = m"
| "str_exn (KeyboardInterrupt m) = m"

fun is_Exception :: "exn \<Rightarrow> bool" where
  "is_Exception (CancelledError m) = False"
| "is_Exception (KeyboardInterrupt m) = False"
| "is_Exception e = True"

text \<open>Truth value testing (\<^verbatim>\<open>if x\<close>, \<^verbatim>\<open>not x\<close>, \<^verbatim>\<open>x or y\<close>).\<close>

fun truthy :: "json \<Rightarrow> bool" where
  "truthy JNull = False"
| "truthy (JBool b) = b"
| "truthy (JInt i) = (i \<noteq> 0)"
| "truthy (JStr s) = (s \<noteq> [])"
| "truthy (JList xs) = (xs \<noteq> [])"
| "truthy (JObj d) = (d \<noteq> [])"

fun type_name :: "json \<Rightarrow> string" where
  "type_name JNull = ''NoneType''"
| "type_name (JBool b) = ''bool''"
| "type_name (JInt i) = ''int''"
| "type_name (JStr s) = ''str''"
| "type_name (JList xs) = ''list''"
| "type_name (JObj d) = ''dict''"

text \<open>\<^verbatim>\<open>d.get(k, default)\<close> on a dictionary.\<close>

definition dict_get :: "(string \<times> json) list \<Rightarrow> string \<Rightarrow> json \<Rightarrow> json" where
  "dict_get d k dflt = (case map_of d k of None \<Rightarrow> dflt | Some v \<Rightarrow> v)"

text \<open>\<^verbatim>\<open>d.update(other)\<close>: the items of \<open>other\<close> are assigned in order.\<close>

definition dict_update :: "(string \<times> json) list \<Rightarrow> (string \<times> json) list \<Rightarrow> (string \<times> json) list" where
  "dict_update d other = foldl (\<lambda>acc kv. AList.update (fst kv) (snd kv) acc) d other"

text \<open>
  The values \<^verbatim>\<open>json.dump\<close> accepts are more than the values \<^verbatim>\<open>json.load\<close> returns:
  a tuple is written as an array, and a dictionary key may be a string, an integer, a
  boolean or \<^verbatim>\<open>None\<close>, written as a string. \<open>pyval\<close> are these values (floating-point
  numbers left out, as in \<open>json\<close>); \<open>to_py\<close> reads a \<open>json\<close> value as one of them.
\<close>

datatype pykey = KStr string | KInt int | KBool bool | KNone

datatype pyval =
    PNone
  | PBool bool
  | PInt int
  | PStr string
  | PList "pyval list"
  | PTuple "pyval list"
  | PDict "(pykey \<times> pyval) list"

primrec to_py :: "json \<Rightarrow> pyval" where
  "to_py JNull = PNone"
| "to_py (JBool b) = PBool b"
| "to_py (JInt i) = PInt i"
| "to_py (JStr s) = PStr s"
| "to_py (JList xs) = PList (map to_py xs)"
| "to_py (JObj kvs) = PDict (map (map_prod KStr to_py) kvs)"

text \<open>The decimal text of an integer (\<^verbatim>\<open>int.__repr__\<close>), and the text of a key.\<close>

definition digit_char :: "nat \<Rightarrow> char" where
  "digit_char d = ''0123456789'' ! d"

fun nat_digits :: "nat \<Rightarrow> string" where
  "nat_digits n =
     (if n < 10 then [digit_char n] else nat_digits (n div 10) @ [digit_char (n mod 10)])"

declare nat_digits.simps [simp del]

definition int_repr :: "int \<Rightarrow> string" where
  "int_repr i = (if i < 0 then ''-'' @ nat_digits (nat (- i)) else nat_digits (nat i))"

fun key_text :: "pykey \<Rightarrow> string" where
  "key_text (KStr s) = s"
| "key_text (KInt i) = int_repr i"
| "key_text (KBool b) = (if b then ''true'' else ''false'')"
| "key_text KNone = ''null''"

text \<open>
  \<open>json_dump v\<close> is the document \<^verbatim>\<open>json.dump(v, f)\<close> writes: an object lists its
  members in the dictionary's order, and two keys with the same text both appear.
  \<open>json_load\<close> is the value \<^verbatim>\<open>json.load(f)\<close> builds from a document: the members of an
  object are assigned to a new dictionary in turn, so a repeated key keeps its first place
  and its last value.
\<close>

primrec json_dump :: "pyval \<Rightarrow> json" where
  "json_dump PNone = JNull"
| "json_dump (PBool b) = JBool b"
| "json_dump (PInt i) = JInt i"
| "json_dump (PStr s) = JStr s"
| "json_dump (PList xs) = JList (map json_dump xs)"
| "json_dump (PTuple xs) = JList (map json_dump xs)"
| "json_dump (PDict kvs) = JObj (map (map_prod key_text json_dump) kvs)"

primrec json_load :: "json \<Rightarrow> json" where
  "json_load JNull = JNull"
| "json_load (JBool b) = JBool b"
| "json_load (JInt i) = JInt i"
| "json_load (JStr s) = JStr s"
| "json_load (JList xs) = JList (map json_load xs)"
| "json_load (JObj kvs) = JObj (dict_update [] (map (map_prod id json_load) kvs))"

text \<open>
  The Python values of JSON's own shape: no tuple, every key a string, and the keys of a
  dictionary distinct (as they are in any Python dictionary).
\<close>

fun is_KStr :: "pykey \<Rightarrow> bool" where
  "is_KStr (KStr s) = True"
| "is_KStr k = False"

primrec json_shaped :: "pyval \<Rightarrow> bool" where
  "json_shaped PNone = True"
| "json_shaped (PBool b) = True"
| "json_shaped (PInt i) = True"
| "json_shaped (PStr s) = True"
| "json_shaped (PList xs) = list_all id (map json_shaped xs)"
| "json_shaped (PTuple xs) = False"
| "json_shaped (PDict kvs) =
     (list_all (\<lambda>kv. is_KStr (fst kv) \<and> snd kv) (map (map_prod id json_shaped) kvs) \<and>
      distinct (map fst kvs))"

text \<open>
  \<^verbatim>\<open>for x in v\<close>: a list gives its elements, a dictionary its keys, a string its
  characters; anything else is not iterable.
\<close>

fun py_iter :: "json \<Rightarrow> exn + json list" where
  "py_iter (JList xs) = Inr xs"
| "py_iter (JObj d) = Inr (map (\<lambda>kv. JStr (fst kv)) d)"
| "py_iter (JStr s) = Inr (map (\<lambda>c. JStr [c]) s)"
| "py_iter v = Inl (TypeError (squote (type_name v) @ '' object is not iterable''))"

text \<open>\<^verbatim>\<open>str.isspace\<close> on one character, and \<^verbatim>\<open>str.strip()\<close>.\<close>

definition py_isspace :: "char \<Rightarrow> bool" where
  "py_isspace c = (of_char c \<in> {9, 10, 11, 12, 13, 28, 29, 30, 31, 32, 133, 160 :: nat})"

definition strip :: "string \<Rightarrow> string" where
  "strip s = rev (dropWhile py_isspace (rev (dropWhile py_isspace s)))"

definition no_attribute :: "json \<Rightarrow> string \<Rightarrow> exn" where
  "no_attribute v a =
     AttributeError (squote (type_name v) @ '' object has no attribute '' @ squote a)"

section \<open>Gate Validator (pipeline/gates.py)\<close>

text \<open>
  A gate receives the result object by reference. Its model returns the outcome of the call
  (\<open>Inr ()\<close> for a normal return, \<open>Inl e\<close> for the exception raised) together with the
  object as the call leaves it. The source only reads the object (\<^verbatim>\<open>isinstance\<close>,
  \<^verbatim>\<open>dict.get\<close>, iteration, \<^verbatim>\<open>str.strip\<close>).
\<close>

definition validate_discovery_gate :: "json \<Rightarrow> (exn + unit) \<times> json" where
  "validate_discovery_gate result =
     (case result of
        JObj d \<Rightarrow>
          if dict_get d ''phase'' JNull \<noteq> JStr ''discovery''
          then (Inl (GateError (''Discovery result must have phase='' @ squote ''discovery'')), result)
          else
            let usages = dict_get d ''usages'' (JList []) in
            if \<not> truthy usages
            then (Inl (GateError ''Discovery must find at least one usage''), result)
            else (Inr (), result)
      | _ \<Rightarrow> (Inl (GateError ''Discovery result must be a dictionary''), result))"

definition validate_narrowing_gate :: "json \<Rightarrow> (exn + unit) \<times> json" where
  "validate_narrowing_gate result =
     (case result of
        JObj d \<Rightarrow>
          if dict_get d ''phase'' JNull \<noteq> JStr ''narrowing''
          then (Inl (GateError (''Narrowing result must have phase='' @ squote ''narrowing'')), result)
          else
            let usages = dict_get d ''narrowed_usages'' (JList []) in
            if \<not> truthy usages
            then (Inl (GateError ''Narrowing must produce at least one narrowed usage''), result)
            else (Inr (), result)
      | _ \<Rightarrow> (Inl (GateError ''Narrowing result must be a dictionary''), result))"

text \<open>
  One round of the loop over the migrations: \<^verbatim>\<open>migration.get(k, "").strip()\<close> needs a
  dictionary and a string value, and fails with \<^verbatim>\<open>AttributeError\<close> otherwise.
\<close>

definition stripped_field :: "json \<Rightarrow> string \<Rightarrow> exn + string" where
  "stripped_field migration k =
     (case migration of
        JObj md \<Rightarrow>
          (case dict_get md k (JStr []) of
             JStr s \<Rightarrow> Inr (strip s)
           | v \<Rightarrow> Inl (no_attribute v ''strip''))
      | v \<Rightarrow> Inl (no_attribute v ''get''))"

fun check_migrations :: "json list \<Rightarrow> exn + unit" where
  "check_migrations [] = Inr ()"
| "check_migrations (migration # rest) =
     (case stripped_field migration ''graphql_query'' of
        Inl e \<Rightarrow> Inl e
      | Inr q \<Rightarrow>
          if q = [] then Inl (GateError ''All migrations must have non-empty graphql_query'')
          else
            (case stripped_field migration ''new_code'' of
               Inl e \<Rightarrow> Inl e
             | Inr c \<Rightarrow>
                 if c = [] then Inl (GateError ''All migrations must have non-empty new_code'')
                 else check_migrations rest))"

definition validate_generation_gate :: "json \<Rightarrow> (exn + unit) \<times> json" where
  "validate_generation_gate result =
     (case result of
        JObj d \<Rightarrow>
          if dict_get d ''phase'' JNull \<noteq> JStr ''generation''
          then (Inl (GateError (''Generation result must have phase='' @ squote ''generation'')), result)
          else
            let migrations = dict_get d ''generated_migrations'' (JList []) in
            if \<not> truthy migrations
            then (Inl (GateError ''Generation must produce at least one migration''), result)
            else
              (case py_iter migrations of
                 Inl e \<Rightarrow> (Inl e, result)
               | Inr items \<Rightarrow> (check_migrations items, result))
      | _ \<Rightarrow> (Inl (GateError ''Generation result must be a dictionary''), result))"

section \<open>Configuration (schema.py, config.py)\<close>

record RestEndpoint =
  ep_id :: string
  ep_method :: string
  ep_path :: string
  ep_patterns :: "string list"

record AttributeMapping =
  am_endpoint_id :: string
  rest_attribute :: string
  graphql_field :: string
  graphql_type :: string

record Repository =
  repo_name :: string
  repo_url :: string
  repo_branch :: string
  repo_language :: string

record ConfigOptions =
  dry_run :: bool
  create_branches :: bool
  branch_prefix :: string
  max_concurrent_repos :: int
  model :: string
  max_turns_per_phase :: int

record Config =
  project_name :: string
  work_dir :: string
  repositories :: "Repository list"
  rest_endpoints :: "RestEndpoint list"
  attribute_mappings :: "AttributeMapping list"
  graphql_endpoint :: string
  graphql_schema_path :: string
  options :: ConfigOptions

text \<open>
  The keyword arguments \<^verbatim>\<open>Config(**config_dict)\<close> receives: a key of the dictionary may
  be missing (\<open>None\<close>); the values present have the shape of their field.
\<close>

record ConfigDict =
  d_project_name :: "string option"
  d_work_dir :: "string option"
  d_repositories :: "Repository list option"
  d_rest_endpoints :: "RestEndpoint list option"
  d_attribute_mappings :: "AttributeMapping list option"
  d_graphql_endpoint :: "string option"
  d_graphql_schema_path :: "string option"
  d_options :: "ConfigOptions option"

definition default_ConfigOptions :: ConfigOptions where
  "default_ConfigOptions =
     \<lparr>dry_run = True, create_branches = True, branch_prefix = ''migration/rest-to-graphql'',
      max_concurrent_repos = 2, model = ''claude-sonnet-4-5-20250929'',
      max_turns_per_phase = 50\<rparr>"

text \<open>
  Validation collects the errors of all fields, as pydantic does; a field's own validator
  runs only when the field's items are valid. An error is kept as its location and message.
\<close>

definition required :: "string \<Rightarrow> 'a option \<Rightarrow> string list" where
  "required field v = (case v of None \<Rightarrow> [field @ '': Field required''] | Some x \<Rightarrow> [])"

definition patterns_not_empty :: "string list \<Rightarrow> string list" where
  "patterns_not_empty v = (if v = [] then [''patterns: Value error, patterns cannot be empty''] else [])"

definition validate_RestEndpoint :: "RestEndpoint \<Rightarrow> string list" where
  "validate_RestEndpoint e = patterns_not_empty (ep_patterns e)"

definition validate_Repository :: "Repository \<Rightarrow> string list" where
  "validate_Repository r =
     (if repo_language r = ''javascript'' \<or> repo_language r = ''java'' then []
      else [''language: Input should be '' @ squote ''javascript'' @ '' or '' @ squote ''java''])"

definition repositories_not_empty :: "Repository list \<Rightarrow> string list" where
  "repositories_not_empty v =
     (if v = [] then [''repositories: Value error, repositories cannot be empty''] else [])"

definition validate_repositories :: "Repository list option \<Rightarrow> string list" where
  "validate_repositories v =
     (case v of
        None \<Rightarrow> [''repositories: Field required'']
      | Some rs \<Rightarrow>
          (let item_errors = concat (map validate_Repository rs) in
           if item_errors \<noteq> [] then item_errors else repositories_not_empty rs))"

definition validate_rest_endpoints :: "RestEndpoint list option \<Rightarrow> string list" where
  "validate_rest_endpoints v =
     (case v of
        None \<Rightarrow> [''rest_endpoints: Field required'']
      | Some es \<Rightarrow> concat (map validate_RestEndpoint es))"

definition Config_errors :: "ConfigDict \<Rightarrow> string list" where
  "Config_errors d =
     required ''project_name'' (d_project_name d) @
     required ''work_dir'' (d_work_dir d) @
     validate_repositories (d_repositories d) @
     validate_rest_endpoints (d_rest_endpoints d) @
     required ''attribute_mappings'' (d_attribute_mappings d) @
     required ''graphql_endpoint'' (d_graphql_endpoint d) @
     required ''graphql_schema_path'' (d_graphql_schema_path d)"

definition Config_init :: "ConfigDict \<Rightarrow> string list + Config" where
  "Config_init d =
     (case (d_project_name d, d_work_dir d, d_repositories d, d_rest_endpoints d,
            d_attribute_mappings d, d_graphql_endpoint d, d_graphql_schema_path d) of
        (Some pn, Some wd, Some rs, Some es, Some ms, Some ge, Some gs) \<Rightarrow>
          if Config_errors d = [] then
            Inr \<lparr>project_name = pn, work_dir = wd, repositories = rs, rest_endpoints = es,
                 attribute_mappings = ms, graphql_endpoint = ge, graphql_schema_path = gs,
                 options = (case d_options d of None \<Rightarrow> default_ConfigOptions | Some opts \<Rightarrow> opts)\<rparr>
          else Inl (Config_errors d)
      | _ \<Rightarrow> Inl (Config_errors d))"

text \<open>
  \<^verbatim>\<open>load_config\<close> takes a path or a dictionary. \<open>config_files\<close> maps the path of each
  existing configuration file to the dictionary \<^verbatim>\<open>json.load\<close> reads from it.
\<close>

datatype config_source = FromPath string | FromDict ConfigDict

definition validation_error_text :: "string list \<Rightarrow> string" where
  "validation_error_text errs = concat (map (\<lambda>e. e @ ''; '') errs)"

definition load_config :: "(string \<rightharpoonup> ConfigDict) \<Rightarrow> config_source \<Rightarrow> exn + Config" where
  "load_config config_files config_source =
     (case (case config_source of
              FromPath p \<Rightarrow>
                (case config_files p of
                   None \<Rightarrow> Inl (FileNotFoundError (''Config file not found: '' @ p))
                 | Some d \<Rightarrow> Inr d)
            | FromDict d \<Rightarrow> Inr d) of
        Inl e \<Rightarrow> Inl e
      | Inr config_dict \<Rightarrow>
          (case Config_init config_dict of
             Inl errs \<Rightarrow> Inl (ValueError (''Invalid configuration: '' @ validation_error_text errs))
           | Inr c \<Rightarrow> Inr c))"

section \<open>The working directory\<close>

text \<open>
  A path as \<^verbatim>\<open>pathlib\<close> keeps it on a POSIX system: the anchor (\<^verbatim>\<open>/\<close>, \<^verbatim>\<open>//\<close> for
  exactly two leading slashes, or none) and the components between slashes, empty ones and
  \<^verbatim>\<open>.\<close> dropped, \<^verbatim>\<open>..\<close> kept. Two paths are equal, for \<^verbatim>\<open>pathlib\<close> and here, when
  anchor and components are. \<open>path_div\<close> is the operator \<^verbatim>\<open>/\<close> with a string on its
  right: an anchored right-hand side replaces the left one.
\<close>

fun split_slash :: "string \<Rightarrow> string list" where
  "split_slash [] = [[]]"
| "split_slash (c # cs) =
     (if c = CHR ''/'' then [] # split_slash cs
      else (case split_slash cs of x # xs \<Rightarrow> (c # x) # xs | [] \<Rightarrow> [[c]]))"

definition parts :: "string \<Rightarrow> string list" where
  "parts s = filter (\<lambda>p. p \<noteq> [] \<and> p \<noteq> ''.'') (split_slash s)"

definition anchor :: "string \<Rightarrow> string" where
  "anchor s =
     (if take 2 s = ''//'' \<and> take 3 s \<noteq> ''///'' then ''//''
      else if take 1 s = ''/'' then ''/'' else [])"

type_synonym path = "string \<times> string list"

definition Path :: "string \<Rightarrow> path" where
  "Path s = (anchor s, parts s)"

definition path_div :: "path \<Rightarrow> string \<Rightarrow> path" where
  "path_div p name = (if anchor name \<noteq> [] then Path name else (fst p, snd p @ parts name))"

text \<open>
  The state the pipeline acts on: the JSON document in each file of the working directory
  (by path), the number of times the clock was read, and the lines printed. The working
  directory exists once a \<^verbatim>\<open>StateManager\<close> or \<^verbatim>\<open>ProgressTracker\<close> is constructed
  (\<^verbatim>\<open>mkdir\<close> in the constructors), so a write into it succeeds.
\<close>

record world =
  files :: "path \<rightharpoonup> json"
  clock :: nat
  stdout :: "string list"

text \<open>The Report Bridge only looks its paths up in the project's listing: plain joins.\<close>

definition path_join :: "string \<Rightarrow> string \<Rightarrow> string" where
  "path_join dir name = dir @ ''/'' @ name"

definition print :: "string \<Rightarrow> world \<Rightarrow> world" where
  "print line w = w\<lparr>stdout := stdout w @ [line]\<rparr>"

section \<open>Result Store (state/manager.py)\<close>

text \<open>
  \<open>get_state_file\<close>, \<open>save_result\<close> and \<open>get_result\<close> are the methods
  \<^verbatim>\<open>_get_state_file\<close>, \<^verbatim>\<open>_save_result\<close> and \<^verbatim>\<open>_get_result\<close>. Saving writes the
  document \<^verbatim>\<open>json.dump\<close> makes of the result; reading returns what \<^verbatim>\<open>json.load\<close> makes
  of the document in the file, and \<^verbatim>\<open>None\<close>, here \<open>JNull\<close>, when there is no file.
\<close>

record StateManager =
  sm_work_dir :: path

definition StateManager_init :: "string \<Rightarrow> StateManager" where
  "StateManager_init wd = \<lparr>sm_work_dir = Path wd\<rparr>"

definition get_state_file :: "StateManager \<Rightarrow> string \<Rightarrow> path" where
  "get_state_file self phase = path_div (sm_work_dir self) (phase @ ''-result.json'')"

definition save_result :: "StateManager \<Rightarrow> string \<Rightarrow> pyval \<Rightarrow> world \<Rightarrow> world" where
  "save_result self phase result w =
     w\<lparr>files := (files w)(get_state_file self phase \<mapsto> json_dump result)\<rparr>"

definition get_result :: "StateManager \<Rightarrow> string \<Rightarrow> world \<Rightarrow> json" where
  "get_result self phase w =
     (case files w (get_state_file self phase) of None \<Rightarrow> JNull | Some doc \<Rightarrow> json_load doc)"

definition save_discovery_result :: "StateManager \<Rightarrow> pyval \<Rightarrow> world \<Rightarrow> world" where
  "save_discovery_result self result = save_result self ''discovery'' result"

definition get_discovery_result :: "StateManager \<Rightarrow> world \<Rightarrow> json" where
  "get_discovery_result self = get_result self ''discovery''"

definition save_narrowing_result :: "StateManager \<Rightarrow> pyval \<Rightarrow> world \<Rightarrow> world" where
  "save_narrowing_result self result = save_result self ''narrowing'' result"

definition get_narrowing_result :: "StateManager \<Rightarrow> world \<Rightarrow> json" where
  "get_narrowing_result self = get_result self ''narrowing''"

definition save_generation_result :: "StateManager \<Rightarrow> pyval \<Rightarrow> world \<Rightarrow> world" where
  "save_generation_result self result = save_result self ''generation'' result"

definition get_generation_result :: "StateManager \<Rightarrow> world \<Rightarrow> json" where
  "get_generation_result self = get_result self ''generation''"

definition save_migration_result :: "StateManager \<Rightarrow> pyval \<Rightarrow> world \<Rightarrow> world" where
  "save_migration_result self result = save_result self ''migration'' result"

definition get_migration_result :: "StateManager \<Rightarrow> world \<Rightarrow> json" where
  "get_migration_result self = get_result self ''migration''"

definition save_validation_result :: "StateManager \<Rightarrow> pyval \<Rightarrow> world \<Rightarrow> world" where
  "save_validation_result self result = save_result self ''validation'' result"

definition get_validation_result :: "StateManager \<Rightarrow> world \<Rightarrow> json" where
  "get_validation_result self = get_result self ''validation''"

section \<open>Progress Log (state/progress.py)\<close>

record ProgressTracker =
  pt_work_dir :: path
  progress_file :: path

definition PROGRESS_FILE :: string where
  "PROGRESS_FILE = ''migration-progress.txt''"

definition ProgressTracker_init :: "string \<Rightarrow> ProgressTracker" where
  "ProgressTracker_init wd =
     \<lparr>pt_work_dir = Path wd, progress_file = path_div (Path wd) PROGRESS_FILE\<rparr>"

text \<open>
  The progress file is the tracker's own: it holds dictionaries with string keys, which
  \<^verbatim>\<open>json.dump\<close> writes as they are and \<^verbatim>\<open>json.load\<close> reads as they were written.
\<close>

definition read_progress :: "ProgressTracker \<Rightarrow> world \<Rightarrow> json" where
  "read_progress self w =
     (case files w (progress_file self) of None \<Rightarrow> JNull | Some doc \<Rightarrow> doc)"

definition write_progress :: "ProgressTracker \<Rightarrow> json \<Rightarrow> world \<Rightarrow> world" where
  "write_progress self progress w = w\<lparr>files := (files w)(progress_file self \<mapsto> progress)\<rparr>"

text \<open>
  \<open>utcnow n\<close> is the text \<^verbatim>\<open>datetime.utcnow().isoformat()\<close> gives at the \<open>n\<close>-th reading
  of the clock; \<open>timestamp\<close> reads the clock once.
\<close>

definition timestamp :: "(nat \<Rightarrow> string) \<Rightarrow> world \<Rightarrow> string" where
  "timestamp utcnow w = utcnow (clock w) @ ''Z''"

definition tick :: "world \<Rightarrow> world" where
  "tick w = w\<lparr>clock := Suc (clock w)\<rparr>"

definition init_progress :: "(nat \<Rightarrow> string) \<Rightarrow> ProgressTracker \<Rightarrow> string \<Rightarrow> world \<Rightarrow> world" where
  "init_progress utcnow self name w =
     (let progress = JObj [(''project'', JStr name),
                           (''started_at'', JStr (timestamp utcnow w)),
                           (''phases'', JObj [])]
      in write_progress self progress (tick w))"

text \<open>\<^verbatim>\<open>self.read_progress() or {"phases": {}}\<close>\<close>

definition progress_or_empty :: "json \<Rightarrow> json" where
  "progress_or_empty doc = (if truthy doc then doc else JObj [(''phases'', JObj [])])"

text \<open>
  The lines the three \<^verbatim>\<open>mark_phase_*\<close> methods share (\<open>update_phase_entry\<close>, and
  \<open>mark_phase\<close> with the reading before and the writing after):
  \<^verbatim>\<open>if phase not in progress["phases"]: progress["phases"][phase] = {}\<close> and then
  \<^verbatim>\<open>progress["phases"][phase].update(items)\<close>. Subscripting a document that is not a
  dictionary, or a \<^verbatim>\<open>"phases"\<close> value that is not one, ends in a \<^verbatim>\<open>TypeError\<close>; a
  missing \<^verbatim>\<open>"phases"\<close> key in a \<^verbatim>\<open>KeyError\<close>; an entry that is not a dictionary has
  no \<^verbatim>\<open>update\<close>.
\<close>

definition update_phase_entry :: "json \<Rightarrow> string \<Rightarrow> (string \<times> json) list \<Rightarrow> exn + json" where
  "update_phase_entry progress phase items =
     (case progress of
        JObj d \<Rightarrow>
          (case map_of d ''phases'' of
             None \<Rightarrow> Inl (KeyError (squote ''phases''))
           | Some (JObj phases) \<Rightarrow>
               (case dict_get phases phase (JObj []) of
                  JObj entry \<Rightarrow>
                    Inr (JObj (AList.update ''phases''
                           (JObj (AList.update phase (JObj (dict_update entry items)) phases)) d))
                | v \<Rightarrow> Inl (no_attribute v ''update''))
           | Some v \<Rightarrow> Inl (TypeError (squote (type_name v) @ '' object does not hold phase entries'')))
      | v \<Rightarrow> Inl (TypeError (squote (type_name v) @ '' object is not a progress dictionary'')))"

definition mark_phase ::
  "ProgressTracker \<Rightarrow> string \<Rightarrow> (string \<times> json) list \<Rightarrow> world \<Rightarrow> (exn + unit) \<times> world" where
  "mark_phase self phase items w =
     (case update_phase_entry (progress_or_empty (read_progress self w)) phase items of
        Inl e \<Rightarrow> (Inl e, w)
      | Inr progress \<Rightarrow> (Inr (), write_progress self progress (tick w)))"

definition mark_phase_started ::
  "(nat \<Rightarrow> string) \<Rightarrow> ProgressTracker \<Rightarrow> string \<Rightarrow> world \<Rightarrow> (exn + unit) \<times> world" where
  "mark_phase_started utcnow self phase w =
     mark_phase self phase
       [(''status'', JStr ''in_progress''), (''started_at'', JStr (timestamp utcnow w))] w"

definition mark_phase_completed ::
  "(nat \<Rightarrow> string) \<Rightarrow> ProgressTracker \<Rightarrow> string \<Rightarrow> string \<Rightarrow> world \<Rightarrow> (exn + unit) \<times> world" where
  "mark_phase_completed utcnow self phase summary w =
     mark_phase self phase
       [(''status'', JStr ''completed''), (''completed_at'', JStr (timestamp utcnow w)),
        (''summary'', JStr summary)] w"

definition mark_phase_failed ::
  "(nat \<Rightarrow> string) \<Rightarrow> ProgressTracker \<Rightarrow> string \<Rightarrow> string \<Rightarrow> world \<Rightarrow> (exn + unit) \<times> world" where
  "mark_phase_failed utcnow self phase error w =
     mark_phase self phase
       [(''status'', JStr ''failed''), (''failed_at'', JStr (timestamp utcnow w)),
        (''error'', JStr error)] w"

text \<open>Reading one field of one phase's entry in a progress document.\<close>

definition phase_field :: "json \<Rightarrow> string \<Rightarrow> string \<Rightarrow> json option" where
  "phase_field progress phase k =
     (case progress of
        JObj d \<Rightarrow>
          (case map_of d ''phases'' of
             Some (JObj phases) \<Rightarrow>
               (case map_of phases phase of Some (JObj entry) \<Rightarrow> map_of entry k | _ \<Rightarrow> None)
           | _ \<Rightarrow> None)
      | _ \<Rightarrow> None)"

text \<open>
  The progress documents on which the \<^verbatim>\<open>mark_phase_*\<close> methods do not raise: a falsy
  document (replaced by the empty record), or a dictionary whose \<^verbatim>\<open>"phases"\<close> value is a
  dictionary of dictionaries. Every document the tracker writes is one.
\<close>

definition is_dict :: "json \<Rightarrow> bool" where
  "is_dict v = (case v of JObj d \<Rightarrow> True | _ \<Rightarrow> False)"

definition progress_ok :: "json \<Rightarrow> bool" where
  "progress_ok doc =
     (if truthy doc
      then (case doc of
              JObj d \<Rightarrow>
                (case map_of d ''phases'' of
                   Some (JObj phases) \<Rightarrow> list_all (\<lambda>kv. is_dict (snd kv)) phases
                 | _ \<Rightarrow> False)
            | _ \<Rightarrow> False)
      else True)"

section \<open>Phase Runner (pipeline/runner.py)\<close>

text \<open>
  The external collaborator behind \<^verbatim>\<open>_execute_phase\<close>: given the phase name and the files
  it finds, it returns a result (\<open>JNull\<close> for none) or raises, and leaves files behind.
  \<open>execute_phase_placeholder\<close> is the body the repository ships.
\<close>

type_synonym collaborator = "string \<Rightarrow> (path \<rightharpoonup> json) \<Rightarrow> (exn + json) \<times> (path \<rightharpoonup> json)"

definition execute_phase_placeholder :: collaborator where
  "execute_phase_placeholder phase fs = (Inr JNull, fs)"

record PhaseRunner =
  pr_config :: Config
  pr_state_manager :: StateManager
  pr_progress_tracker :: ProgressTracker
  pr_phase :: string

definition PhaseRunner_init ::
  "Config \<Rightarrow> StateManager \<Rightarrow> ProgressTracker \<Rightarrow> string \<Rightarrow> PhaseRunner" where
  "PhaseRunner_init cfg sm pt phase =
     \<lparr>pr_config = cfg, pr_state_manager = sm, pr_progress_tracker = pt, pr_phase = phase\<rparr>"

text \<open>
  The handler \<^verbatim>\<open>except Exception as e: mark_phase_failed(phase, str(e)); raise\<close>. An
  exception that is no \<^verbatim>\<open>Exception\<close> passes it untouched; an exception of
  \<^verbatim>\<open>mark_phase_failed\<close> itself leaves the handler in place of \<open>e\<close>.
\<close>

definition run_except ::
  "(nat \<Rightarrow> string) \<Rightarrow> PhaseRunner \<Rightarrow> exn \<Rightarrow> world \<Rightarrow> (exn + json) \<times> world" where
  "run_except utcnow self e w =
     (if \<not> is_Exception e then (Inl e, w)
      else
        (case mark_phase_failed utcnow (pr_progress_tracker self) (pr_phase self) (str_exn e) w of
           (Inl e', w') \<Rightarrow> (Inl e', w')
         | (Inr u, w') \<Rightarrow> (Inl e, w')))"

definition run :: "collaborator \<Rightarrow> (nat \<Rightarrow> string) \<Rightarrow> PhaseRunner \<Rightarrow> world \<Rightarrow> (exn + json) \<times> world" where
  "run execute_phase utcnow self w =
     (case mark_phase_started utcnow (pr_progress_tracker self) (pr_phase self) w of
        (Inl e, w1) \<Rightarrow> (Inl e, w1)
      | (Inr u, w1) \<Rightarrow>
          (case execute_phase (pr_phase self) (files w1) of
             (Inl e, fs) \<Rightarrow> run_except utcnow self e (w1\<lparr>files := fs\<rparr>)
           | (Inr result, fs) \<Rightarrow>
               (case (if truthy result
                      then mark_phase_completed utcnow (pr_progress_tracker self) (pr_phase self)
                             (''Phase '' @ pr_phase self @ '' completed successfully'')
                             (w1\<lparr>files := fs\<rparr>)
                      else mark_phase_failed utcnow (pr_progress_tracker self) (pr_phase self)
                             (''Phase '' @ pr_phase self @ '' produced no results'')
                             (w1\<lparr>files := fs\<rparr>)) of
                  (Inl e, w2) \<Rightarrow> run_except utcnow self e w2
                | (Inr u, w2) \<Rightarrow> (Inr result, w2))))"

section \<open>Orchestrator (orchestrator.py)\<close>

text \<open>
  The orchestrator's \<^verbatim>\<open>agent_definitions\<close> are left out: no method modelled here reads
  them. \<open>run_phases\<close> and \<open>run_pipeline\<close> take the collaborator and the clock that the
  Phase Runners they build will use. The \<^verbatim>\<open>except Exception\<close> of \<open>run_pipeline\<close> turns
  an exception into the answer \<open>False\<close>; one that is no \<^verbatim>\<open>Exception\<close> leaves the
  method.
\<close>

record Orchestrator =
  config :: Config
  state_manager :: StateManager
  progress_tracker :: ProgressTracker

definition PHASES :: "string list" where
  "PHASES = [''discovery'', ''narrowing'', ''generation'', ''migration'', ''validation'']"

definition Orchestrator_init :: "Config \<Rightarrow> Orchestrator" where
  "Orchestrator_init cfg =
     \<lparr>config = cfg, state_manager = StateManager_init (work_dir cfg),
      progress_tracker = ProgressTracker_init (work_dir cfg)\<rparr>"

definition from_config_file :: "(string \<rightharpoonup> ConfigDict) \<Rightarrow> string \<Rightarrow> exn + Orchestrator" where
  "from_config_file config_files config_path =
     (case load_config config_files (FromPath config_path) of
        Inl e \<Rightarrow> Inl e
      | Inr cfg \<Rightarrow> Inr (Orchestrator_init cfg))"

text \<open>
  \<^verbatim>\<open>_validate_phase_result\<close>: a \<^verbatim>\<open>GateError\<close> is caught, printed and answered with
  \<open>False\<close>; any other exception of a gate leaves the method.
\<close>

definition validate_phase_result :: "string \<Rightarrow> json \<Rightarrow> world \<Rightarrow> (exn + bool) \<times> world" where
  "validate_phase_result phase result w =
     (case (if phase = ''discovery'' then fst (validate_discovery_gate result)
            else if phase = ''narrowing'' then fst (validate_narrowing_gate result)
            else if phase = ''generation'' then fst (validate_generation_gate result)
            else Inr ()) of
        Inr u \<Rightarrow> (Inr True, w)
      | Inl (GateError m) \<Rightarrow>
          (Inr False, print (''Gate validation failed for '' @ phase @ '': '' @ m) w)
      | Inl e \<Rightarrow> (Inl e, w))"

text \<open>The body of \<^verbatim>\<open>for phase in self.PHASES\<close>, phase by phase, inside the \<^verbatim>\<open>try\<close>.\<close>

fun run_phases ::
  "collaborator \<Rightarrow> (nat \<Rightarrow> string) \<Rightarrow> Orchestrator \<Rightarrow> string list \<Rightarrow> world \<Rightarrow> (exn + bool) \<times> world" where
  "run_phases execute_phase utcnow self [] w = (Inr True, w)"
| "run_phases execute_phase utcnow self (phase # rest) w =
     (case run execute_phase utcnow
             (PhaseRunner_init (config self) (state_manager self) (progress_tracker self) phase)
             (print (''Starting phase: '' @ phase) w) of
        (Inl e, w1) \<Rightarrow> (Inl e, w1)
      | (Inr result, w1) \<Rightarrow>
          if \<not> truthy result then (Inr False, print (''Phase '' @ phase @ '' failed'') w1)
          else
            (case validate_phase_result phase result w1 of
               (Inl e, w2) \<Rightarrow> (Inl e, w2)
             | (Inr ok, w2) \<Rightarrow>
                 if \<not> ok then (Inr False, print (''Phase '' @ phase @ '' validation failed'') w2)
                 else run_phases execute_phase utcnow self rest
                        (print (''Phase '' @ phase @ '' completed successfully'') w2)))"

definition run_pipeline ::
  "collaborator \<Rightarrow> (nat \<Rightarrow> string) \<Rightarrow> Orchestrator \<Rightarrow> world \<Rightarrow> (exn + bool) \<times> world" where
  "run_pipeline execute_phase utcnow self w =
     (case run_phases execute_phase utcnow self PHASES
             (init_progress utcnow (progress_tracker self) (project_name (config self)) w) of
        (Inl e, w1) \<Rightarrow>
          if is_Exception e then (Inr False, print (''Pipeline failed: '' @ str_exn e) w1)
          else (Inl e, w1)
      | (Inr b, w1) \<Rightarrow> (Inr b, w1))"

definition get_pipeline_status :: "Orchestrator \<Rightarrow> world \<Rightarrow> json" where
  "get_pipeline_status self w = read_progress (progress_tracker self) w"

section \<open>Report Bridge (pipeline/gradle_runner.py)\<close>

text \<open>
  An XML element as \<^verbatim>\<open>xml.etree.ElementTree\<close> holds it: tag, attributes, the text before
  the first child (\<open>None\<close> when there is none) and the children in document order.
\<close>

datatype element =
  Element (el_tag: string) (el_attrib: "(string \<times> string) list") (el_text: "string option")
    (el_children: "element list")

text \<open>
  All elements of a document in document order: an element comes before its children, and
  the children follow one another with all that is below them.
\<close>

fun all_elements :: "element \<Rightarrow> element list" where
  "all_elements (Element tg a tx cs) = Element tg a tx cs # concat (map all_elements cs)"

text \<open>\<^verbatim>\<open>tree.iter(tag)\<close>: the root and its descendants with that tag, in document order.\<close>

fun iter :: "string \<Rightarrow> element \<Rightarrow> element list" where
  "iter t (Element tg a tx cs) =
     (if tg = t then [Element tg a tx cs] else []) @ concat (map (iter t) cs)"

text \<open>\<^verbatim>\<open>e.find(tag)\<close>: the first child with that tag; \<^verbatim>\<open>e.get(key, default)\<close>.\<close>

definition find_child :: "element \<Rightarrow> string \<Rightarrow> element option" where
  "find_child e t = List.find (\<lambda>c. el_tag c = t) (el_children e)"

definition attr_get :: "element \<Rightarrow> string \<Rightarrow> string \<Rightarrow> string" where
  "attr_get e k dflt = (case map_of (el_attrib e) k of None \<Rightarrow> dflt | Some v \<Rightarrow> v)"

record ValidationCheck =
  check_name :: string
  passed :: bool
  details :: string

text \<open>What \<^verbatim>\<open>ET.parse\<close> makes of a report file: a \<^verbatim>\<open>ParseError\<close> or a tree.\<close>

datatype xml_file = ParseError | Tree element

text \<open>
  The project directory as the runner sees it: the paths of the files that exist, and for
  each existing directory of reports its entries (name and content).
\<close>

record project_fs =
  existing :: "string set"
  listing :: "string \<rightharpoonup> (string \<times> xml_file) list"

record CompletedProcess =
  returncode :: int
  proc_stdout :: string
  proc_stderr :: string

text \<open>\<^verbatim>\<open>subprocess.run(cmd, cwd=...)\<close>: the build writes its reports and returns.\<close>

type_synonym subprocess = "string list \<Rightarrow> string \<Rightarrow> project_fs \<Rightarrow> CompletedProcess \<times> project_fs"

record GradleRunner =
  repo_path :: string

definition TEST_RESULTS_DIR :: string where
  "TEST_RESULTS_DIR = ''build/test-results/test''"

definition GradleRunner_init :: "string \<Rightarrow> project_fs \<Rightarrow> exn + GradleRunner" where
  "GradleRunner_init path pfs =
     (if path_join path ''build.gradle'' \<notin> existing pfs
      then Inl (ValueError (''No build.gradle found in '' @ path))
      else Inr \<lparr>repo_path = path\<rparr>)"

definition get_test_report_dir :: "GradleRunner \<Rightarrow> string" where
  "get_test_report_dir self = path_join (repo_path self) TEST_RESULTS_DIR"

definition invoke_gradle ::
  "subprocess \<Rightarrow> GradleRunner \<Rightarrow> string list \<Rightarrow> project_fs \<Rightarrow> (bool \<times> string) \<times> project_fs" where
  "invoke_gradle subprocess_run self extra_args pfs =
     (let cmd = [''gradle'', ''test'', ''--daemon'', ''--continue''] @ extra_args;
          (result, pfs') = subprocess_run cmd (repo_path self) pfs;
          output = proc_stdout result @ proc_stderr result
      in ((returncode result = 0, output), pfs'))"

text \<open>
  The body of the loop over the test cases of one report. \<open>failure_check\<close> is the branch
  for \<^verbatim>\<open>node = failure if failure is not None else error\<close>.
\<close>

definition failure_check :: "string \<Rightarrow> element \<Rightarrow> ValidationCheck" where
  "failure_check name node =
     (let message = attr_get node ''message'' (case el_text node of None \<Rightarrow> [] | Some t \<Rightarrow> t)
      in \<lparr>check_name = name, passed = False, details = take 500 message\<rparr>)"

definition testcase_check :: "element \<Rightarrow> ValidationCheck" where
  "testcase_check testcase =
     (let class_name = attr_get testcase ''classname'' [];
          test_name = attr_get testcase ''name'' [];
          name = class_name @ ''.'' @ test_name;
          failure = find_child testcase ''failure'';
          error = find_child testcase ''error'';
          skipped = find_child testcase ''skipped''
      in case skipped of
           Some s \<Rightarrow> \<lparr>check_name = name, passed = True, details = ''SKIPPED''\<rparr>
         | None \<Rightarrow>
             (case failure of
                Some node \<Rightarrow> failure_check name node
              | None \<Rightarrow>
                  (case error of
                     Some node \<Rightarrow> failure_check name node
                   | None \<Rightarrow> \<lparr>check_name = name, passed = True, details = ''PASSED''\<rparr>)))"

definition parse_single_xml :: "xml_file \<Rightarrow> ValidationCheck list" where
  "parse_single_xml xml_file =
     (case xml_file of
        ParseError \<Rightarrow> []
      | Tree root \<Rightarrow>
          foldl (\<lambda>checks testcase. checks @ [testcase_check testcase]) [] (iter ''testcase'' root))"

text \<open>
  \<^verbatim>\<open>sorted(report_dir.glob("*.xml"))\<close>: the entries whose name ends in \<^verbatim>\<open>.xml\<close>, in the
  order of their names.
\<close>

definition endswith :: "string \<Rightarrow> string \<Rightarrow> bool" where
  "endswith s suffix = (take (length suffix) (rev s) = rev suffix)"

definition sorted_glob_xml :: "(string \<times> xml_file) list \<Rightarrow> (string \<times> xml_file) list" where
  "sorted_glob_xml entries = sort_key fst (filter (\<lambda>entry. endswith (fst entry) ''.xml'') entries)"

definition parse_junit_xml :: "GradleRunner \<Rightarrow> project_fs \<Rightarrow> ValidationCheck list" where
  "parse_junit_xml self pfs =
     (case listing pfs (path_join (repo_path self) TEST_RESULTS_DIR) of
        None \<Rightarrow> []
      | Some entries \<Rightarrow>
          foldl (\<lambda>checks entry. checks @ parse_single_xml (snd entry)) [] (sorted_glob_xml entries))"

definition run_tests ::
  "subprocess \<Rightarrow> GradleRunner \<Rightarrow> string list option \<Rightarrow> project_fs \<Rightarrow> ValidationCheck list \<times> project_fs" where
  "run_tests subprocess_run self extra_args pfs =
     (let ((success, output), pfs') =
            invoke_gradle subprocess_run self (case extra_args of None \<Rightarrow> [] | Some a \<Rightarrow> a) pfs;
          checks = parse_junit_xml self pfs'
      in if checks = []
         then (checks @ [\<lparr>check_name = ''gradle-build'', passed = success,
                           details = (if \<not> success then output
                                      else ''Build succeeded, no test cases found'')\<rparr>], pfs')
         else (checks, pfs'))"

section \<open>Sample inputs (after tests/conftest.py)\<close>

text \<open>
  The configuration and the discovery result of the test fixtures, shortened: one pattern,
  without the quotes inside it, and the first fields of the usage.
\<close>

definition sample_config_dict :: ConfigDict where
  "sample_config_dict =
     \<lparr>d_project_name = Some ''test-migration'',
      d_work_dir = Some ''/tmp/test-workspace'',
      d_repositories = Some [\<lparr>repo_name = ''test-frontend'',
         repo_url = ''https://github.com/test/frontend.git'', repo_branch = ''main'',
         repo_language = ''javascript''\<rparr>],
      d_rest_endpoints = Some [\<lparr>ep_id = ''get-user'', ep_method = ''GET'',
         ep_path = ''/api/v1/users/{id}'', ep_patterns = [''fetch(/api/v1/users/'']\<rparr>],
      d_attribute_mappings = Some [\<lparr>am_endpoint_id = ''get-user'', rest_attribute = ''user_name'',
         graphql_field = ''userName'', graphql_type = ''User''\<rparr>],
      d_graphql_endpoint = Some ''https://api.example.com/graphql'',
      d_graphql_schema_path = Some ''./schema.graphql'',
      d_options = None\<rparr>"

definition sample_config :: Config where
  "sample_config =
     \<lparr>project_name = ''test-migration'',
      work_dir = ''/tmp/test-workspace'',
      repositories = [\<lparr>repo_name = ''test-frontend'',
         repo_url = ''https://github.com/test/frontend.git'', repo_branch = ''main'',
         repo_language = ''javascript''\<rparr>],
      rest_endpoints = [\<lparr>ep_id = ''get-user'', ep_method = ''GET'',
         ep_path = ''/api/v1/users/{id}'', ep_patterns = [''fetch(/api/v1/users/'']\<rparr>],
      attribute_mappings = [\<lparr>am_endpoint_id = ''get-user'', rest_attribute = ''user_name'',
         graphql_field = ''userName'', graphql_type = ''User''\<rparr>],
      graphql_endpoint = ''https://api.example.com/graphql'',
      graphql_schema_path = ''./schema.graphql'',
      options = default_ConfigOptions\<rparr>"

definition sample_discovery_result :: json where
  "sample_discovery_result =
     JObj [(''phase'', JStr ''discovery''),
           (''timestamp'', JStr ''2025-01-01T00:00:00Z''),
           (''usages'', JList [JObj [(''endpoint_id'', JStr ''get-user''),
                                    (''repo'', JStr ''test-frontend''),
                                    (''file'', JStr ''src/api.js''),
                                    (''line'', JInt 42)]])]"

definition empty_world :: world where
  "empty_world = \<lparr>files = Map.empty, clock = 0, stdout = []\<rparr>"

definition sample_clock :: "nat \<Rightarrow> string" where
  "sample_clock n = ''2025-01-01T00:00:0'' @ [char_of (48 + n)]"

text \<open>
  Three collaborators: one that raises, one that returns the sample discovery result
  (without saving it) and nothing afterwards, one that returns an empty dictionary.
\<close>

definition raising_collaborator :: collaborator where
  "raising_collaborator phase fs = (Inl (RuntimeError ''Repository not found''), fs)"

definition discovery_only_collaborator :: collaborator where
  "discovery_only_collaborator phase fs =
     (if phase = ''discovery'' then (Inr sample_discovery_result, fs) else (Inr JNull, fs))"

definition empty_dict_collaborator :: collaborator where
  "empty_dict_collaborator phase fs = (Inr (JObj []), fs)"

text \<open>A collaborator whose coroutine is cancelled.\<close>

definition cancelled_collaborator :: collaborator where
  "cancelled_collaborator phase fs = (Inl (CancelledError []), fs)"

text \<open>
  A discovery result that \<^verbatim>\<open>json.dump\<close> accepts and that is not of JSON's shape: the
  usages are a tuple, and one dictionary has an integer key.
\<close>

definition tuple_discovery_result :: pyval where
  "tuple_discovery_result =
     PDict [(KStr ''phase'', PStr ''discovery''),
            (KStr ''usages'', PTuple [PDict [(KStr ''endpoint_id'', PStr ''get-user''),
                                            (KStr ''lines'', PDict [(KInt 42, PStr ''fetch'')])]])]"

text \<open>
  A Gradle project without a report directory, a build that succeeds and one that fails to
  compile, neither writing a report; and a report with a passing case, a failing case whose
  message has 600 characters, and a skipped case.
\<close>

definition sample_project :: project_fs where
  "sample_project = \<lparr>existing = {''/repo/build.gradle''}, listing = Map.empty\<rparr>"

definition successful_build :: subprocess where
  "successful_build cmd cwd pfs =
     (\<lparr>returncode = 0, proc_stdout = ''BUILD SUCCESSFUL'', proc_stderr = []\<rparr>, pfs)"

definition failing_build :: subprocess where
  "failing_build cmd cwd pfs =
     (\<lparr>returncode = 1, proc_stdout = ''> Task :compileJava FAILED'',
       proc_stderr = ''error: package does not exist''\<rparr>, pfs)"

definition passing_case :: element where
  "passing_case =
     Element ''testcase'' [(''classname'', ''com.example.ApiClientTest''), (''name'', ''T1'')] None []"

definition failing_case :: element where
  "failing_case =
     Element ''testcase'' [(''classname'', ''com.example.ApiClientTest''), (''name'', ''T2'')] None
       [Element ''failure'' [(''message'', replicate 600 (CHR ''x''))] (Some ''AssertionFailedError'') []]"

definition skipped_case :: element where
  "skipped_case =
     Element ''testcase'' [(''classname'', ''com.example.ApiClientTest''), (''name'', ''T5'')] None
       [Element ''skipped'' [] None []]"

definition sample_report :: element where
  "sample_report =
     Element ''testsuite'' [(''name'', ''com.example.ApiClientTest'')] None
       [passing_case, failing_case, skipped_case]"

text \<open>
  A case with an error marker that has no message attribute, and a report with suites
  inside one another: a case below a properties element beside the suite's own cases.
\<close>

definition error_case :: element where
  "error_case =
     Element ''testcase'' [(''classname'', ''com.example.OtherTest''), (''name'', ''E1'')] None
       [Element ''error'' [(''type'', ''java.lang.IllegalStateException'')]
          (Some ''IllegalStateException: no connection'') []]"

definition nested_report :: element where
  "nested_report =
     Element ''testsuites'' [] None
       [Element ''testsuite'' [(''name'', ''com.example.OtherTest'')] None
          [Element ''properties'' [] None [Element ''property'' [(''name'', ''os'')] None []],
           error_case,
           Element ''testsuite'' [(''name'', ''inner'')] None [skipped_case]],
        passing_case]"

definition nested_project :: project_fs where
  "nested_project =
     \<lparr>existing = {''/repo/build.gradle''},
      listing = [''/repo/build/test-results/test'' \<mapsto>
        [(''TEST-z.xml'', Tree sample_report),
         (''notes.txt'', Tree failing_case),
         (''TEST-broken.xml'', ParseError),
         (''TEST-a.xml'', Tree nested_report)]]\<rparr>"

text \<open>The same project once a build has written that report, beside a file of notes.\<close>

definition reported_project :: project_fs where
  "reported_project =
     \<lparr>existing = {''/repo/build.gradle''},
      listing = [''/repo/build/test-results/test'' \<mapsto>
        [(''notes.txt'', Tree failing_case),
         (''TEST-com.example.ApiClientTest.xml'', Tree sample_report),
         (''TEST-broken.xml'', ParseError)]]\<rparr>"

section \<open>Properties of the gates\<close>

lemma check_migrations_complete:
  "\<forall>m \<in> set ms. \<exists>md q c. m = JObj md \<and>
       map_of md ''graphql_query'' = Some (JStr q) \<and> strip q \<noteq> [] \<and>
       map_of md ''new_code'' = Some (JStr c) \<and> strip c \<noteq> [] \<Longrightarrow>
   check_migrations ms = Inr ()"
  by (induction ms) (auto simp: stripped_field_def dict_get_def)

text \<open>
  Claim C3. A dictionary tagged with the gate's phase whose item collection is a non-empty
  list passes the discovery and the narrowing gate; it passes the generation gate when,
  moreover, every item is a dictionary whose \<^verbatim>\<open>graphql_query\<close> and \<^verbatim>\<open>new_code\<close> are
  strings that are not blank once stripped. Passing is the normal return \<open>Inr ()\<close>: no
  exception of any kind.
\<close>

theorem gates_accept_complete_results:
  "(map_of d1 ''phase'' = Some (JStr ''discovery'') \<and>
    map_of d1 ''usages'' = Some (JList us) \<and> us \<noteq> []
      \<longrightarrow> fst (validate_discovery_gate (JObj d1)) = Inr ()) \<and>
   (map_of d2 ''phase'' = Some (JStr ''narrowing'') \<and>
    map_of d2 ''narrowed_usages'' = Some (JList ns) \<and> ns \<noteq> []
      \<longrightarrow> fst (validate_narrowing_gate (JObj d2)) = Inr ()) \<and>
   (map_of d3 ''phase'' = Some (JStr ''generation'') \<and>
    map_of d3 ''generated_migrations'' = Some (JList ms) \<and> ms \<noteq> [] \<and>
    (\<forall>m \<in> set ms. \<exists>md q c. m = JObj md \<and>
        map_of md ''graphql_query'' = Some (JStr q) \<and> strip q \<noteq> [] \<and>
        map_of md ''new_code'' = Some (JStr c) \<and> strip c \<noteq> [])
      \<longrightarrow> fst (validate_generation_gate (JObj d3)) = Inr ())"
proof (intro conjI impI)
  assume "map_of d1 ''phase'' = Some (JStr ''discovery'') \<and>
    map_of d1 ''usages'' = Some (JList us) \<and> us \<noteq> []"
  then show "fst (validate_discovery_gate (JObj d1)) = Inr ()"
    by (simp add: validate_discovery_gate_def dict_get_def)
next
  assume "map_of d2 ''phase'' = Some (JStr ''narrowing'') \<and>
    map_of d2 ''narrowed_usages'' = Some (JList ns) \<and> ns \<noteq> []"
  then show "fst (validate_narrowing_gate (JObj d2)) = Inr ()"
    by (simp add: validate_narrowing_gate_def dict_get_def)
next
  assume a: "map_of d3 ''phase'' = Some (JStr ''generation'') \<and>
    map_of d3 ''generated_migrations'' = Some (JList ms) \<and> ms \<noteq> [] \<and>
    (\<forall>m \<in> set ms. \<exists>md q c. m = JObj md \<and>
        map_of md ''graphql_query'' = Some (JStr q) \<and> strip q \<noteq> [] \<and>
        map_of md ''new_code'' = Some (JStr c) \<and> strip c \<noteq> [])"
  then have "check_migrations ms = Inr ()"
    using check_migrations_complete by blast
  with a show "fst (validate_generation_gate (JObj d3)) = Inr ()"
    by (simp add: validate_generation_gate_def dict_get_def)
qed

theorem gates_accept_complete_results_witness:
  "fst (validate_discovery_gate (JObj [(''phase'', JStr ''discovery''),
      (''usages'', JList [JObj [(''endpoint_id'', JStr ''get-user'')]])])) = Inr () \<and>
   fst (validate_narrowing_gate (JObj [(''phase'', JStr ''narrowing''),
      (''narrowed_usages'', JList [JObj [(''endpoint_id'', JStr ''get-user'')]])])) = Inr () \<and>
   fst (validate_generation_gate (JObj [(''phase'', JStr ''generation''),
      (''generated_migrations'', JList [JObj [(''graphql_query'', JStr '' query { user } ''),
         (''new_code'', JStr ''client.query()'')]])])) = Inr ()"
  using gates_accept_complete_results
    [of "[(''phase'', JStr ''discovery''),
          (''usages'', JList [JObj [(''endpoint_id'', JStr ''get-user'')]])]"
        "[JObj [(''endpoint_id'', JStr ''get-user'')]]"
        "[(''phase'', JStr ''narrowing''),
          (''narrowed_usages'', JList [JObj [(''endpoint_id'', JStr ''get-user'')]])]"
        "[JObj [(''endpoint_id'', JStr ''get-user'')]]"
        "[(''phase'', JStr ''generation''),
          (''generated_migrations'', JList [JObj [(''graphql_query'', JStr '' query { user } ''),
             (''new_code'', JStr ''client.query()'')]])]"
        "[JObj [(''graphql_query'', JStr '' query { user } ''),
                (''new_code'', JStr ''client.query()'')]]"]
  by (simp add: strip_def py_isspace_def)

lemma discovery_gate_rejects:
  "(case r of JObj d \<Rightarrow>
        map_of d ''phase'' = None \<or>
        (\<exists>v. map_of d ''phase'' = Some v \<and> v \<noteq> JStr ''discovery'') \<or>
        map_of d ''usages'' = None \<or> (\<exists>c. map_of d ''usages'' = Some c \<and> \<not> truthy c)
      | _ \<Rightarrow> True) \<Longrightarrow>
   \<exists>msg. fst (validate_discovery_gate r) = Inl (GateError msg)"
  by (cases r) (auto simp: validate_discovery_gate_def dict_get_def split: option.splits)

lemma narrowing_gate_rejects:
  "(case r of JObj d \<Rightarrow>
        map_of d ''phase'' = None \<or>
        (\<exists>v. map_of d ''phase'' = Some v \<and> v \<noteq> JStr ''narrowing'') \<or>
        map_of d ''narrowed_usages'' = None \<or>
        (\<exists>c. map_of d ''narrowed_usages'' = Some c \<and> \<not> truthy c)
      | _ \<Rightarrow> True) \<Longrightarrow>
   \<exists>msg. fst (validate_narrowing_gate r) = Inl (GateError msg)"
  by (cases r) (auto simp: validate_narrowing_gate_def dict_get_def split: option.splits)

lemma generation_gate_rejects:
  "(case r of JObj d \<Rightarrow>
        map_of d ''phase'' = None \<or>
        (\<exists>v. map_of d ''phase'' = Some v \<and> v \<noteq> JStr ''generation'') \<or>
        map_of d ''generated_migrations'' = None \<or>
        (\<exists>c. map_of d ''generated_migrations'' = Some c \<and> \<not> truthy c)
      | _ \<Rightarrow> True) \<Longrightarrow>
   \<exists>msg. fst (validate_generation_gate r) = Inl (GateError msg)"
  by (cases r) (auto simp: validate_generation_gate_def dict_get_def split: option.splits)

lemma gates_leave_input:
  "snd (validate_discovery_gate r) = r"
  "snd (validate_narrowing_gate r) = r"
  "snd (validate_generation_gate r) = r"
  by (auto simp: validate_discovery_gate_def validate_narrowing_gate_def
      validate_generation_gate_def Let_def split: json.splits sum.splits)

text \<open>
  Claim C4. Each gate raises a \<^verbatim>\<open>GateError\<close> on an input that is not a dictionary, has no
  \<^verbatim>\<open>phase\<close> key, has another value under it than the gate's phase name, has no item
  collection, or has an empty one (an empty list, or any other falsy value). And the object
  a gate was given is, after the call, the object as it was given: in particular whenever
  the gate returns normally.
\<close>

theorem gates_reject_violations:
  "((case r1 of JObj d \<Rightarrow>
        map_of d ''phase'' = None \<or>
        (\<exists>v. map_of d ''phase'' = Some v \<and> v \<noteq> JStr ''discovery'') \<or>
        map_of d ''usages'' = None \<or> (\<exists>c. map_of d ''usages'' = Some c \<and> \<not> truthy c)
      | _ \<Rightarrow> True)
     \<longrightarrow> (\<exists>msg. fst (validate_discovery_gate r1) = Inl (GateError msg))) \<and>
   ((case r2 of JObj d \<Rightarrow>
        map_of d ''phase'' = None \<or>
        (\<exists>v. map_of d ''phase'' = Some v \<and> v \<noteq> JStr ''narrowing'') \<or>
        map_of d ''narrowed_usages'' = None \<or>
        (\<exists>c. map_of d ''narrowed_usages'' = Some c \<and> \<not> truthy c)
      | _ \<Rightarrow> True)
     \<longrightarrow> (\<exists>msg. fst (validate_narrowing_gate r2) = Inl (GateError msg))) \<and>
   ((case r3 of JObj d \<Rightarrow>
        map_of d ''phase'' = None \<or>
        (\<exists>v. map_of d ''phase'' = Some v \<and> v \<noteq> JStr ''generation'') \<or>
        map_of d ''generated_migrations'' = None \<or>
        (\<exists>c. map_of d ''generated_migrations'' = Some c \<and> \<not> truthy c)
      | _ \<Rightarrow> True)
     \<longrightarrow> (\<exists>msg. fst (validate_generation_gate r3) = Inl (GateError msg))) \<and>
   snd (validate_discovery_gate r) = r \<and>
   snd (validate_narrowing_gate r) = r \<and>
   snd (validate_generation_gate r) = r"
  using discovery_gate_rejects[of r1] narrowing_gate_rejects[of r2] generation_gate_rejects[of r3]
    gates_leave_input[of r]
  by blast

theorem gates_reject_violations_witness:
  "(\<exists>msg. fst (validate_discovery_gate (JObj [(''usages'', JList [JInt 1])])) =
       Inl (GateError msg)) \<and>
   (\<exists>msg. fst (validate_narrowing_gate (JObj [(''phase'', JStr ''discovery''),
       (''narrowed_usages'', JList [JInt 1])])) = Inl (GateError msg)) \<and>
   (\<exists>msg. fst (validate_generation_gate (JObj [(''phase'', JStr ''generation''),
       (''generated_migrations'', JList [])])) = Inl (GateError msg)) \<and>
   validate_discovery_gate (JObj [(''phase'', JStr ''discovery''), (''usages'', JList [JInt 1])]) =
     (Inr (), JObj [(''phase'', JStr ''discovery''), (''usages'', JList [JInt 1])])"
  using gates_reject_violations
    [of "JObj [(''usages'', JList [JInt 1])]"
        "JObj [(''phase'', JStr ''discovery''), (''narrowed_usages'', JList [JInt 1])]"
        "JObj [(''phase'', JStr ''generation''), (''generated_migrations'', JList [])]"
        "JObj [(''phase'', JStr ''discovery''), (''usages'', JList [JInt 1])]"]
  by (simp add: validate_discovery_gate_def dict_get_def)

section \<open>Properties of the Result Store\<close>

lemma update_fresh: "k \<notin> fst ` set al \<Longrightarrow> AList.update k v al = al @ [(k, v)]"
  by (induction al) auto

lemma foldl_update_distinct:
  "distinct (map fst (acc @ xs)) \<Longrightarrow>
   foldl (\<lambda>acc kv. AList.update (fst kv) (snd kv) acc) acc xs = acc @ xs"
proof (induction xs arbitrary: acc)
  case Nil
  then show ?case by simp
next
  case (Cons kv xs)
  have "AList.update (fst kv) (snd kv) acc = acc @ [kv]"
    using Cons.prems by (simp add: update_fresh)
  moreover have "distinct (map fst ((acc @ [kv]) @ xs))" using Cons.prems by simp
  ultimately show ?case using Cons.IH[of "acc @ [kv]"] by simp
qed

lemma dict_update_distinct: "distinct (map fst xs) \<Longrightarrow> dict_update [] xs = xs"
  using foldl_update_distinct[of "[]" xs] by (simp add: dict_update_def)

lemma key_text_KStr: "is_KStr k \<Longrightarrow> KStr (key_text k) = k"
  by (cases k) simp_all

lemma key_text_distinct:
  "list_all (\<lambda>kv. is_KStr (fst kv)) kvs \<Longrightarrow> distinct (map fst kvs) \<Longrightarrow>
   distinct (map (\<lambda>kv. key_text (fst kv)) kvs)"
proof (induction kvs)
  case Nil
  then show ?case by simp
next
  case (Cons kv kvs)
  have "key_text (fst kv) \<notin> (\<lambda>kv. key_text (fst kv)) ` set kvs"
  proof
    assume "key_text (fst kv) \<in> (\<lambda>kv. key_text (fst kv)) ` set kvs"
    then obtain kv' where kv': "kv' \<in> set kvs" "key_text (fst kv') = key_text (fst kv)" by auto
    have "is_KStr (fst kv')" using Cons.prems(1) kv'(1) by (auto simp: list_all_iff)
    moreover have "is_KStr (fst kv)" using Cons.prems(1) by simp
    ultimately have "fst kv' = fst kv" using kv'(2) key_text_KStr by metis
    then have "fst kv \<in> fst ` set kvs" using kv'(1) by (metis imageI)
    then show False using Cons.prems(2) by simp
  qed
  then show ?case using Cons by simp
qed

text \<open>Dumping and loading a value of JSON's shape gives the value back.\<close>

lemma json_round_trip: "json_shaped R \<Longrightarrow> to_py (json_load (json_dump R)) = R"
proof (induction R)
  case (PList xs)
  then show ?case by (auto simp: list_all_iff intro: map_idI)
next
  case (PDict kvs)
  have sh: "list_all (\<lambda>kv. is_KStr (fst kv)) kvs" "distinct (map fst kvs)"
    and sv: "\<forall>kv \<in> set kvs. json_shaped (snd kv)"
    using PDict.prems by (auto simp: list_all_iff)
  have d: "distinct (map fst (map (map_prod id json_load) (map (map_prod key_text json_dump) kvs)))"
    using key_text_distinct[OF sh] by (simp add: comp_def)
  have e: "map_prod KStr to_py (map_prod id json_load (map_prod key_text json_dump kv)) = kv"
    if "kv \<in> set kvs" for kv
  proof -
    have "is_KStr (fst kv)" using sh(1) that by (auto simp: list_all_iff)
    then have "KStr (key_text (fst kv)) = fst kv" by (rule key_text_KStr)
    moreover have "to_py (json_load (json_dump (snd kv))) = snd kv"
      using PDict.IH[of kv "snd kv"] that sv by (cases kv) auto
    ultimately show ?thesis by (cases kv) auto
  qed
  have "map (map_prod KStr to_py)
          (map (map_prod id json_load) (map (map_prod key_text json_dump) kvs)) = kvs"
    using e by (simp add: map_idI)
  then show ?case
    by (simp only: json_dump.simps json_load.simps to_py.simps dict_update_distinct[OF d])
qed simp_all

text \<open>
  Claim C5, as amended. For each of the pipeline's phase names, the value read after a save,
  by the store that saved or by any store over the same working directory (the same path
  for \<^verbatim>\<open>pathlib\<close>), is what \<^verbatim>\<open>json.load\<close> makes of what \<^verbatim>\<open>json.dump\<close> wrote. When
  the result saved is of JSON's own shape (no tuple, string keys only) that value is equal
  to the result. A phase whose file does not exist reads as \<^verbatim>\<open>None\<close>, and saving
  another phase does not change that.
\<close>

theorem result_store_round_trip:
  "(phase \<in> set PHASES \<and> sm_work_dir fresh = sm_work_dir store \<longrightarrow>
      get_result store phase (save_result store phase R w) = json_load (json_dump R) \<and>
      get_result fresh phase (save_result store phase R w) = json_load (json_dump R) \<and>
      (json_shaped R \<longrightarrow>
         to_py (get_result store phase (save_result store phase R w)) = R \<and>
         to_py (get_result fresh phase (save_result store phase R w)) = R)) \<and>
   (phase \<in> set PHASES \<and> files w (get_state_file store phase) = None \<longrightarrow>
      get_result store phase w = JNull) \<and>
   (phase \<in> set PHASES \<and> other \<in> set PHASES \<and> other \<noteq> phase \<and>
    files w (get_state_file store phase) = None \<longrightarrow>
      get_result store phase (save_result store other R w) = JNull)"
proof (intro conjI impI)
  assume a: "phase \<in> set PHASES \<and> sm_work_dir fresh = sm_work_dir store"
  show g1: "get_result store phase (save_result store phase R w) = json_load (json_dump R)"
    by (simp add: get_result_def save_result_def)
  show g2: "get_result fresh phase (save_result store phase R w) = json_load (json_dump R)"
    using a by (simp add: get_result_def save_result_def get_state_file_def)
  assume "json_shaped R"
  then have "to_py (json_load (json_dump R)) = R" by (rule json_round_trip)
  then show "to_py (get_result store phase (save_result store phase R w)) = R"
    "to_py (get_result fresh phase (save_result store phase R w)) = R"
    by (simp_all only: g1 g2)
next
  assume "phase \<in> set PHASES \<and> files w (get_state_file store phase) = None"
  then show "get_result store phase w = JNull"
    by (simp add: get_result_def)
next
  assume a: "phase \<in> set PHASES \<and> other \<in> set PHASES \<and> other \<noteq> phase \<and>
    files w (get_state_file store phase) = None"
  have "get_state_file store other \<noteq> get_state_file store phase"
  proof
    assume "get_state_file store other = get_state_file store phase"
    moreover have "anchor (q @ ''-result.json'') = []" "parts (q @ ''-result.json'') = [q @ ''-result.json'']"
      if "q \<in> set PHASES" for q
      using that by (auto simp: PHASES_def anchor_def parts_def)
    ultimately show False
      using a by (simp add: get_state_file_def path_div_def)
  qed
  then show "get_result store phase (save_result store other R w) = JNull"
    using a by (simp add: get_result_def save_result_def)
qed

theorem result_store_round_trip_witness:
  "to_py (get_result (StateManager_init ''./work'') ''discovery''
     (save_result (StateManager_init ''work/'') ''discovery'' (to_py sample_discovery_result)
        empty_world)) = to_py sample_discovery_result \<and>
   get_result (StateManager_init ''work/'') ''discovery'' empty_world = JNull \<and>
   get_result (StateManager_init ''work/'') ''discovery''
     (save_result (StateManager_init ''work/'') ''narrowing'' (PDict []) empty_world) = JNull"
proof -
  have p: "''discovery'' \<in> set PHASES" "''narrowing'' \<in> set PHASES"
    by (simp_all add: PHASES_def)
  have d: "sm_work_dir (StateManager_init ''./work'') = sm_work_dir (StateManager_init ''work/'')"
    by (simp add: StateManager_init_def Path_def anchor_def parts_def)
  have s: "json_shaped (to_py sample_discovery_result)"
    by (simp add: sample_discovery_result_def)
  have n: "files empty_world (get_state_file (StateManager_init ''work/'') ''discovery'') = None"
    by (simp add: empty_world_def)
  show ?thesis
    using p d s n
      result_store_round_trip
        [of "''discovery''" "StateManager_init ''./work''" "StateManager_init ''work/''"
            "to_py sample_discovery_result" empty_world "''narrowing''"]
      result_store_round_trip
        [of "''discovery''" "StateManager_init ''./work''" "StateManager_init ''work/''"
            "PDict []" empty_world "''narrowing''"]
    by blast
qed

text \<open>
  The claim as stated fails: the sample result with a tuple and an integer key is written
  by \<^verbatim>\<open>json.dump\<close>, and what is read back has a list and a string key in their place.
\<close>

theorem result_store_round_trip_counterexample:
  "to_py (get_result (StateManager_init ''work'') ''discovery''
      (save_result (StateManager_init ''work'') ''discovery'' tuple_discovery_result empty_world)) =
     PDict [(KStr ''phase'', PStr ''discovery''),
            (KStr ''usages'', PList [PDict [(KStr ''endpoint_id'', PStr ''get-user''),
                                           (KStr ''lines'', PDict [(KStr ''42'', PStr ''fetch'')])]])] \<and>
   to_py (get_result (StateManager_init ''work'') ''discovery''
      (save_result (StateManager_init ''work'') ''discovery'' tuple_discovery_result empty_world)) \<noteq>
     tuple_discovery_result"
  by (simp add: get_result_def save_result_def tuple_discovery_result_def dict_update_def
      int_repr_def nat_digits.simps digit_char_def)

section \<open>Properties of the Progress Log and the Phase Runner\<close>

lemma dict_update_map_of:
  "map_of (dict_update e items) = map_of e ++ map_of (rev items)"
  unfolding dict_update_def
proof (induction items arbitrary: e)
  case Nil
  then show ?case by simp
next
  case (Cons kv items)
  show ?case
    by (auto simp: Cons.IH update_conv' fun_eq_iff map_add_def split: option.splits)
qed

lemma progress_or_empty_ok:
  "\<exists>d phases. progress_or_empty doc = JObj d \<and> map_of d ''phases'' = Some (JObj phases) \<and>
      list_all (\<lambda>kv. is_dict (snd kv)) phases" if "progress_ok doc"
proof (cases "truthy doc")
  case True
  with that show ?thesis
    by (cases doc; simp add: progress_ok_def progress_or_empty_def split: option.splits json.splits)
next
  case False
  then show ?thesis by (simp add: progress_or_empty_def)
qed

lemma phase_field_or_empty:
  "progress_ok doc \<Longrightarrow> phase_field (progress_or_empty doc) phase k = phase_field doc phase k"
  by (cases doc) (auto simp: progress_or_empty_def phase_field_def)

lemma entry_is_dict:
  "list_all (\<lambda>kv. is_dict (snd kv)) phases \<Longrightarrow> \<exists>entry. dict_get phases phase (JObj []) = JObj entry"
  by (induction phases) (auto simp: dict_get_def is_dict_def split: json.splits option.splits)

lemma list_all_update:
  "list_all (\<lambda>kv. is_dict (snd kv)) phases \<Longrightarrow> is_dict v \<Longrightarrow>
   list_all (\<lambda>kv. is_dict (snd kv)) (AList.update phase v phases)"
  by (induction phases) auto

lemma update_phase_entry_ok:
  assumes "progress_ok doc"
  shows "\<exists>doc'. update_phase_entry (progress_or_empty doc) phase items = Inr doc' \<and>
           progress_ok doc' \<and>
           (\<forall>k. phase_field doc' phase k =
                 (case map_of (rev items) k of Some v \<Rightarrow> Some v | None \<Rightarrow> phase_field doc phase k)) \<and>
           (\<forall>other k. other \<noteq> phase \<longrightarrow> phase_field doc' other k = phase_field doc other k)"
proof -
  from progress_or_empty_ok[OF assms] obtain d phases where
    d: "progress_or_empty doc = JObj d" "map_of d ''phases'' = Some (JObj phases)"
       "list_all (\<lambda>kv. is_dict (snd kv)) phases"
    by blast
  from entry_is_dict[OF d(3)] obtain entry where e: "dict_get phases phase (JObj []) = JObj entry"
    by blast
  let ?phases' = "AList.update phase (JObj (dict_update entry items)) phases"
  let ?doc' = "JObj (AList.update ''phases'' (JObj ?phases') d)"
  have r: "update_phase_entry (progress_or_empty doc) phase items = Inr ?doc'"
    by (simp add: update_phase_entry_def d e)
  have ok: "progress_ok ?doc'"
    using list_all_update[OF d(3), of "JObj (dict_update entry items)" phase]
    by (simp add: progress_ok_def update_conv' is_dict_def)
  have old: "phase_field doc p k = (case map_of phases p of Some (JObj en) \<Rightarrow> map_of en k | _ \<Rightarrow> None)" for p k
    using phase_field_or_empty[OF assms, of p k] by (simp add: d phase_field_def)
  have f1: "phase_field ?doc' phase k =
      (case map_of (rev items) k of Some v \<Rightarrow> Some v | None \<Rightarrow> phase_field doc phase k)" for k
  proof -
    have "phase_field ?doc' phase k = map_of (dict_update entry items) k"
      by (simp add: phase_field_def update_conv')
    moreover have "phase_field doc phase k = map_of entry k"
      using e by (auto simp: old dict_get_def split: option.splits)
    ultimately show ?thesis
      by (simp add: dict_update_map_of map_add_def split: option.splits)
  qed
  have f2: "other \<noteq> phase \<Longrightarrow> phase_field ?doc' other k = phase_field doc other k" for other k
  proof -
    assume "other \<noteq> phase"
    then have "phase_field ?doc' other k =
        (case map_of phases other of Some (JObj en) \<Rightarrow> map_of en k | _ \<Rightarrow> None)"
      by (simp add: phase_field_def update_conv')
    then show ?thesis by (simp only: old)
  qed
  show ?thesis using r ok f1 f2 by blast
qed


lemma read_write_progress [simp]:
  "read_progress pt (write_progress pt doc w) = doc"
  "read_progress pt (tick w) = read_progress pt w"
  "read_progress pt (print line w) = read_progress pt w"
  "clock (write_progress pt doc w) = clock w"
  "clock (tick w) = Suc (clock w)"
  by (simp_all add: read_progress_def write_progress_def tick_def print_def)

lemma mark_phase_ok:
  assumes "progress_ok (read_progress pt w)"
  shows "\<exists>doc'. mark_phase pt phase items w = (Inr (), write_progress pt doc' (tick w)) \<and>
           progress_ok doc' \<and>
           (\<forall>k. phase_field doc' phase k =
                 (case map_of (rev items) k of Some v \<Rightarrow> Some v
                  | None \<Rightarrow> phase_field (read_progress pt w) phase k)) \<and>
           (\<forall>other k. other \<noteq> phase \<longrightarrow>
                 phase_field doc' other k = phase_field (read_progress pt w) other k)"
proof -
  from update_phase_entry_ok[OF assms, of phase items] obtain doc' where
    d: "update_phase_entry (progress_or_empty (read_progress pt w)) phase items = Inr doc'"
       "progress_ok doc'"
       "\<forall>k. phase_field doc' phase k =
                 (case map_of (rev items) k of Some v \<Rightarrow> Some v
                  | None \<Rightarrow> phase_field (read_progress pt w) phase k)"
       "\<forall>other k. other \<noteq> phase \<longrightarrow>
                 phase_field doc' other k = phase_field (read_progress pt w) other k"
    by blast
  have "mark_phase pt phase items w = (Inr (), write_progress pt doc' (tick w))"
    by (simp add: mark_phase_def d(1))
  with d show ?thesis by blast
qed

lemma init_progress_read:
  "read_progress pt (init_progress utcnow pt name w) =
     JObj [(''project'', JStr name), (''started_at'', JStr (utcnow (clock w) @ ''Z'')),
           (''phases'', JObj [])]"
  by (simp add: init_progress_def timestamp_def Let_def)

lemma init_progress_ok: "progress_ok (read_progress pt (init_progress utcnow pt name w))"
  by (simp add: init_progress_read progress_ok_def)

text \<open>
  Claim C7. After \<open>init_progress\<close> the record read back holds the project name, the start
  time and an empty phase map (and is one the later operations accept). On such a record,
  or with no record at all, \<open>mark_phase_started\<close> and then \<open>mark_phase_completed\<close> both
  return normally; the phase reads \<open>in_progress\<close> in between and \<open>completed\<close> after,
  with the \<open>started_at\<close> of the first call kept, a \<open>completed_at\<close> stamp and the summary
  as given. \<open>mark_phase_failed\<close> returns normally and leaves the status \<open>failed\<close> and
  the error text as given.
\<close>

theorem progress_log_lifecycle:
  "read_progress pt (init_progress utcnow pt name w) =
     JObj [(''project'', JStr name), (''started_at'', JStr (utcnow (clock w) @ ''Z'')),
           (''phases'', JObj [])] \<and>
   progress_ok (read_progress pt (init_progress utcnow pt name w)) \<and>
   (progress_ok (read_progress pt w) \<longrightarrow>
      (let (r1, w1) = mark_phase_started utcnow pt P w;
           (r2, w2) = mark_phase_completed utcnow pt P summary w1
       in r1 = Inr () \<and>
          phase_field (read_progress pt w1) P ''status'' = Some (JStr ''in_progress'') \<and>
          phase_field (read_progress pt w1) P ''started_at'' = Some (JStr (utcnow (clock w) @ ''Z'')) \<and>
          r2 = Inr () \<and>
          phase_field (read_progress pt w2) P ''status'' = Some (JStr ''completed'') \<and>
          phase_field (read_progress pt w2) P ''started_at'' = Some (JStr (utcnow (clock w) @ ''Z'')) \<and>
          phase_field (read_progress pt w2) P ''completed_at'' = Some (JStr (utcnow (Suc (clock w)) @ ''Z'')) \<and>
          phase_field (read_progress pt w2) P ''summary'' = Some (JStr summary))) \<and>
   (progress_ok (read_progress pt w) \<longrightarrow>
      (let (r, w') = mark_phase_failed utcnow pt P msg w
       in r = Inr () \<and>
          phase_field (read_progress pt w') P ''status'' = Some (JStr ''failed'') \<and>
          phase_field (read_progress pt w') P ''error'' = Some (JStr msg)))"
proof (intro conjI impI)
  show "read_progress pt (init_progress utcnow pt name w) =
     JObj [(''project'', JStr name), (''started_at'', JStr (utcnow (clock w) @ ''Z'')),
           (''phases'', JObj [])]"
    by (rule init_progress_read)
  show "progress_ok (read_progress pt (init_progress utcnow pt name w))"
    by (rule init_progress_ok)
next
  assume ok: "progress_ok (read_progress pt w)"
  let ?i1 = "[(''status'', JStr ''in_progress''), (''started_at'', JStr (timestamp utcnow w))]"
  from mark_phase_ok[OF ok, of P ?i1] obtain d1 where
    d1: "mark_phase pt P ?i1 w = (Inr (), write_progress pt d1 (tick w))" "progress_ok d1"
        "\<forall>k. phase_field d1 P k = (case map_of (rev ?i1) k of Some v \<Rightarrow> Some v
                  | None \<Rightarrow> phase_field (read_progress pt w) P k)"
    by blast
  let ?w1 = "write_progress pt d1 (tick w)"
  let ?i2 = "[(''status'', JStr ''completed''), (''completed_at'', JStr (timestamp utcnow ?w1)),
              (''summary'', JStr summary)]"
  have ok1: "progress_ok (read_progress pt ?w1)" using d1(2) by simp
  from mark_phase_ok[OF ok1, of P ?i2] obtain d2 where
    d2: "mark_phase pt P ?i2 ?w1 = (Inr (), write_progress pt d2 (tick ?w1))"
        "\<forall>k. phase_field d2 P k = (case map_of (rev ?i2) k of Some v \<Rightarrow> Some v
                  | None \<Rightarrow> phase_field (read_progress pt ?w1) P k)"
    by blast
  have s1: "phase_field d1 P ''status'' = Some (JStr ''in_progress'')"
       "phase_field d1 P ''started_at'' = Some (JStr (utcnow (clock w) @ ''Z''))"
    using d1(3) by (simp_all add: timestamp_def)
  have s2: "phase_field d2 P ''status'' = Some (JStr ''completed'')"
       "phase_field d2 P ''started_at'' = Some (JStr (utcnow (clock w) @ ''Z''))"
       "phase_field d2 P ''completed_at'' = Some (JStr (utcnow (Suc (clock w)) @ ''Z''))"
       "phase_field d2 P ''summary'' = Some (JStr summary)"
    using d2(2) s1 by (simp_all add: timestamp_def)
  show "let (r1, w1) = mark_phase_started utcnow pt P w;
           (r2, w2) = mark_phase_completed utcnow pt P summary w1
       in r1 = Inr () \<and>
          phase_field (read_progress pt w1) P ''status'' = Some (JStr ''in_progress'') \<and>
          phase_field (read_progress pt w1) P ''started_at'' = Some (JStr (utcnow (clock w) @ ''Z'')) \<and>
          r2 = Inr () \<and>
          phase_field (read_progress pt w2) P ''status'' = Some (JStr ''completed'') \<and>
          phase_field (read_progress pt w2) P ''started_at'' = Some (JStr (utcnow (clock w) @ ''Z'')) \<and>
          phase_field (read_progress pt w2) P ''completed_at'' = Some (JStr (utcnow (Suc (clock w)) @ ''Z'')) \<and>
          phase_field (read_progress pt w2) P ''summary'' = Some (JStr summary)"
    using s1 s2 by (simp add: mark_phase_started_def mark_phase_completed_def d1(1) d2(1))
next
  assume ok: "progress_ok (read_progress pt w)"
  let ?i = "[(''status'', JStr ''failed''), (''failed_at'', JStr (timestamp utcnow w)),
             (''error'', JStr msg)]"
  from mark_phase_ok[OF ok, of P ?i] obtain d where
    d: "mark_phase pt P ?i w = (Inr (), write_progress pt d (tick w))"
       "\<forall>k. phase_field d P k = (case map_of (rev ?i) k of Some v \<Rightarrow> Some v
                  | None \<Rightarrow> phase_field (read_progress pt w) P k)"
    by blast
  have "phase_field d P ''status'' = Some (JStr ''failed'')" "phase_field d P ''error'' = Some (JStr msg)"
    using d(2) by simp_all
  then show "let (r, w') = mark_phase_failed utcnow pt P msg w
       in r = Inr () \<and>
          phase_field (read_progress pt w') P ''status'' = Some (JStr ''failed'') \<and>
          phase_field (read_progress pt w') P ''error'' = Some (JStr msg)"
    by (simp add: mark_phase_failed_def d(1))
qed


theorem progress_log_lifecycle_witness:
  "progress_ok (read_progress (ProgressTracker_init ''work'')
      (init_progress (\<lambda>n. ''2024-01-01T00:00:00'') (ProgressTracker_init ''work'') ''demo''
         \<lparr>files = Map.empty, clock = 0, stdout = []\<rparr>)) \<and>
   fst (mark_phase_started (\<lambda>n. ''2024-01-01T00:00:00'') (ProgressTracker_init ''work'') ''discovery''
      (init_progress (\<lambda>n. ''2024-01-01T00:00:00'') (ProgressTracker_init ''work'') ''demo''
         \<lparr>files = Map.empty, clock = 0, stdout = []\<rparr>)) = Inr () \<and>
   phase_field (read_progress (ProgressTracker_init ''work'')
      (snd (mark_phase_completed (\<lambda>n. ''2024-01-01T00:00:00'') (ProgressTracker_init ''work'')
        ''discovery'' ''ok''
        (snd (mark_phase_started (\<lambda>n. ''2024-01-01T00:00:00'') (ProgressTracker_init ''work'')
          ''discovery''
          (init_progress (\<lambda>n. ''2024-01-01T00:00:00'') (ProgressTracker_init ''work'') ''demo''
             \<lparr>files = Map.empty, clock = 0, stdout = []\<rparr>))))))
      ''discovery'' ''status'' = Some (JStr ''completed'') \<and>
   phase_field (read_progress (ProgressTracker_init ''work'')
      (snd (mark_phase_failed (\<lambda>n. ''2024-01-01T00:00:00'') (ProgressTracker_init ''work'')
          ''discovery'' ''boom''
          (init_progress (\<lambda>n. ''2024-01-01T00:00:00'') (ProgressTracker_init ''work'') ''demo''
             \<lparr>files = Map.empty, clock = 0, stdout = []\<rparr>))))
      ''discovery'' ''error'' = Some (JStr ''boom'')"
proof -
  let ?pt = "ProgressTracker_init ''work''"
  let ?u = "\<lambda>n::nat. ''2024-01-01T00:00:00''"
  let ?e = "\<lparr>files = Map.empty, clock = 0, stdout = []\<rparr>"
  let ?w0 = "init_progress ?u ?pt ''demo'' ?e"
  have ok: "progress_ok (read_progress ?pt ?w0)"
    using progress_log_lifecycle[of ?pt ?u "''demo''" ?e "''discovery''" "''ok''" "''boom''"]
    by blast
  show ?thesis
    using ok progress_log_lifecycle[of ?pt ?u "''demo''" ?w0 "''discovery''" "''ok''" "''boom''"]
    by (simp only: case_prod_beta Let_def)
qed

lemma update_phase_entry_fields:
  assumes "update_phase_entry doc phase items = Inr doc'"
  shows "phase_field doc' phase k =
           (case map_of (rev items) k of Some v \<Rightarrow> Some v | None \<Rightarrow> phase_field doc phase k)"
proof -
  from assms obtain d phases entry where
    d: "doc = JObj d" "map_of d ''phases'' = Some (JObj phases)"
       "dict_get phases phase (JObj []) = JObj entry"
       "doc' = JObj (AList.update ''phases''
                  (JObj (AList.update phase (JObj (dict_update entry items)) phases)) d)"
    by (auto simp: update_phase_entry_def split: json.splits option.splits)
  have "phase_field doc' phase k = map_of (dict_update entry items) k"
    by (simp add: d(4) phase_field_def update_conv')
  moreover have "phase_field doc phase k = map_of entry k"
    using d(3) by (auto simp: d(1,2) phase_field_def dict_get_def split: option.splits)
  ultimately show ?thesis
    by (simp add: dict_update_map_of map_add_def split: option.splits)
qed

lemma mark_phase_failed_recorded:
  assumes "mark_phase_failed utcnow pt phase msg w = (Inr (), w')"
  shows "phase_field (read_progress pt w') phase ''status'' = Some (JStr ''failed'') \<and>
         phase_field (read_progress pt w') phase ''error'' = Some (JStr msg)"
proof -
  let ?i = "[(''status'', JStr ''failed''), (''failed_at'', JStr (timestamp utcnow w)),
             (''error'', JStr msg)]"
  from assms obtain doc' where
    d: "update_phase_entry (progress_or_empty (read_progress pt w)) phase ?i = Inr doc'"
       "w' = write_progress pt doc' (tick w)"
    by (auto simp: mark_phase_failed_def mark_phase_def split: sum.splits)
  have "phase_field doc' phase ''status'' = Some (JStr ''failed'')"
       "phase_field doc' phase ''error'' = Some (JStr msg)"
    using update_phase_entry_fields[OF d(1)] by simp_all
  then show ?thesis by (simp add: d(2))
qed

lemma mark_phase_failed_raises:
  "mark_phase_failed utcnow pt phase msg w = (Inl e', w') \<Longrightarrow> w' = w"
  by (auto simp: mark_phase_failed_def mark_phase_def split: sum.splits)

lemma mark_phase_failed_ok:
  assumes "progress_ok (read_progress pt w)"
  shows "\<exists>w'. mark_phase_failed utcnow pt phase msg w = (Inr (), w')"
  using mark_phase_ok[OF assms] by (metis mark_phase_failed_def)

text \<open>
  Claim C8, as amended. Let the Phase Runner have marked the phase started and the
  collaborator raise \<open>e\<close>. Then \<open>run\<close> always ends in an exception: it returns no result.
  If \<open>e\<close> is not an instance of \<^verbatim>\<open>Exception\<close> (a cancelled coroutine, a keyboard
  interrupt) it passes through with nothing recorded, the state being as the collaborator
  left it. If it is one, the handler calls \<open>mark_phase_failed\<close> with \<open>str(e)\<close>: when that
  call returns, \<open>run\<close> ends in the same \<open>e\<close> and the progress record shows the phase as
  \<open>failed\<close> with \<open>str(e)\<close> as its error text; when that call raises, its exception
  leaves \<open>run\<close> in place of \<open>e\<close>, the state again as the collaborator left it. The call
  returns whenever the progress record the
  collaborator leaves is one the tracker accepts, as it is when it does not touch the file.
\<close>

theorem phase_runner_records_and_reraises:
  assumes "mark_phase_started utcnow (pr_progress_tracker self) (pr_phase self) w = (Inr (), w1)"
      and "execute_phase (pr_phase self) (files w1) = (Inl e, fs)"
  shows "(\<exists>e' w'. run execute_phase utcnow self w = (Inl e', w')) \<and>
     (\<not> is_Exception e \<longrightarrow> run execute_phase utcnow self w = (Inl e, w1\<lparr>files := fs\<rparr>)) \<and>
     (is_Exception e \<longrightarrow>
        (\<forall>w'. mark_phase_failed utcnow (pr_progress_tracker self) (pr_phase self) (str_exn e)
                (w1\<lparr>files := fs\<rparr>) = (Inr (), w') \<longrightarrow>
           run execute_phase utcnow self w = (Inl e, w') \<and>
           phase_field (read_progress (pr_progress_tracker self) w') (pr_phase self) ''status'' =
             Some (JStr ''failed'') \<and>
           phase_field (read_progress (pr_progress_tracker self) w') (pr_phase self) ''error'' =
             Some (JStr (str_exn e))) \<and>
        (\<forall>e' w'. mark_phase_failed utcnow (pr_progress_tracker self) (pr_phase self) (str_exn e)
                (w1\<lparr>files := fs\<rparr>) = (Inl e', w') \<longrightarrow>
           run execute_phase utcnow self w = (Inl e', w1\<lparr>files := fs\<rparr>))) \<and>
     (is_Exception e \<and> progress_ok (read_progress (pr_progress_tracker self) (w1\<lparr>files := fs\<rparr>)) \<longrightarrow>
        (\<exists>w'. run execute_phase utcnow self w = (Inl e, w') \<and>
           phase_field (read_progress (pr_progress_tracker self) w') (pr_phase self) ''status'' =
             Some (JStr ''failed'') \<and>
           phase_field (read_progress (pr_progress_tracker self) w') (pr_phase self) ''error'' =
             Some (JStr (str_exn e))))"
proof -
  let ?pt = "pr_progress_tracker self"
  let ?w2 = "w1\<lparr>files := fs\<rparr>"
  let ?m = "mark_phase_failed utcnow ?pt (pr_phase self) (str_exn e) ?w2"
  have r: "run execute_phase utcnow self w = run_except utcnow self e ?w2"
    by (simp add: run_def assms)
  have c2: "\<not> is_Exception e \<longrightarrow> run execute_phase utcnow self w = (Inl e, ?w2)"
    by (simp add: r run_except_def)
  have c3a: "run execute_phase utcnow self w = (Inl e, w') \<and>
        phase_field (read_progress ?pt w') (pr_phase self) ''status'' = Some (JStr ''failed'') \<and>
        phase_field (read_progress ?pt w') (pr_phase self) ''error'' = Some (JStr (str_exn e))"
    if "is_Exception e" "?m = (Inr (), w')" for w'
    using that mark_phase_failed_recorded[OF that(2)] by (simp add: r run_except_def)
  have c3b: "run execute_phase utcnow self w = (Inl e', ?w2)"
    if "is_Exception e" "?m = (Inl e', w')" for e' w'
    using that mark_phase_failed_raises[OF that(2)] by (simp add: r run_except_def)
  have c1: "\<exists>e' w'. run execute_phase utcnow self w = (Inl e', w')"
  proof (cases "is_Exception e")
    case False
    then show ?thesis using c2 by blast
  next
    case True
    obtain o' w' where m: "?m = (o', w')" by (cases ?m)
    show ?thesis
    proof (cases o')
      case (Inl e')
      then show ?thesis using c3b[OF True] m by blast
    next
      case (Inr u)
      then show ?thesis using c3a[OF True] m by auto
    qed
  qed
  have c4: "\<exists>w'. run execute_phase utcnow self w = (Inl e, w') \<and>
        phase_field (read_progress ?pt w') (pr_phase self) ''status'' = Some (JStr ''failed'') \<and>
        phase_field (read_progress ?pt w') (pr_phase self) ''error'' = Some (JStr (str_exn e))"
    if "is_Exception e" "progress_ok (read_progress ?pt ?w2)"
    using mark_phase_failed_ok[OF that(2), of utcnow "pr_phase self" "str_exn e"] c3a[OF that(1)]
    by blast
  show ?thesis using c1 c2 c3a c3b c4 by blast
qed

lemmas sample_run_defs =
  run_pipeline_def Orchestrator_init_def sample_config_def PHASES_def empty_world_def
  init_progress_def write_progress_def tick_def timestamp_def sample_clock_def
  ProgressTracker_init_def StateManager_init_def PhaseRunner_init_def run_def
  mark_phase_started_def mark_phase_completed_def mark_phase_failed_def mark_phase_def
  read_progress_def progress_or_empty_def update_phase_entry_def dict_get_def dict_update_def
  print_def Path_def anchor_def parts_def path_div_def PROGRESS_FILE_def run_except_def Let_def
  validate_phase_result_def validate_discovery_gate_def sample_discovery_result_def
  get_result_def get_state_file_def progress_ok_def is_dict_def phase_field_def

theorem phase_runner_records_and_reraises_witness:
  "fst (run raising_collaborator sample_clock
          (PhaseRunner_init sample_config (StateManager_init ''/tmp/test-workspace'')
             (ProgressTracker_init ''/tmp/test-workspace'') ''discovery'') empty_world) =
     Inl (RuntimeError ''Repository not found'') \<and>
   phase_field (read_progress (ProgressTracker_init ''/tmp/test-workspace'')
       (snd (run raising_collaborator sample_clock
          (PhaseRunner_init sample_config (StateManager_init ''/tmp/test-workspace'')
             (ProgressTracker_init ''/tmp/test-workspace'') ''discovery'') empty_world)))
     ''discovery'' ''status'' = Some (JStr ''failed'') \<and>
   phase_field (read_progress (ProgressTracker_init ''/tmp/test-workspace'')
       (snd (run raising_collaborator sample_clock
          (PhaseRunner_init sample_config (StateManager_init ''/tmp/test-workspace'')
             (ProgressTracker_init ''/tmp/test-workspace'') ''discovery'') empty_world)))
     ''discovery'' ''error'' = Some (JStr ''Repository not found'')"
proof -
  let ?pt = "ProgressTracker_init ''/tmp/test-workspace''"
  let ?self = "PhaseRunner_init sample_config (StateManager_init ''/tmp/test-workspace'') ?pt ''discovery''"
  let ?w1 = "snd (mark_phase_started sample_clock ?pt ''discovery'' empty_world)"
  have a1: "mark_phase_started sample_clock (pr_progress_tracker ?self) (pr_phase ?self) empty_world =
      (Inr (), ?w1)"
    by (simp add: sample_run_defs)
  have a2: "raising_collaborator (pr_phase ?self) (files ?w1) =
      (Inl (RuntimeError ''Repository not found''), files ?w1)"
    by (simp add: raising_collaborator_def)
  have a3: "is_Exception (RuntimeError ''Repository not found'') \<and>
      progress_ok (read_progress (pr_progress_tracker ?self) (?w1\<lparr>files := files ?w1\<rparr>))"
    by (simp add: sample_run_defs)
  from phase_runner_records_and_reraises
    [where execute_phase = raising_collaborator and self = ?self and utcnow = sample_clock
       and w = empty_world and ?w1.0 = ?w1 and e = "RuntimeError ''Repository not found''"
       and fs = "files ?w1", OF a1 a2] a3
  show ?thesis by (auto simp: PhaseRunner_init_def)
qed

text \<open>
  The claim as stated fails: the collaborator's coroutine is cancelled, the exception leaves
  \<open>run\<close>, and the progress record still shows the phase as \<open>in_progress\<close> with no error
  text.
\<close>

theorem phase_runner_cancelled_counterexample:
  "fst (run cancelled_collaborator sample_clock
          (PhaseRunner_init sample_config (StateManager_init ''/tmp/test-workspace'')
             (ProgressTracker_init ''/tmp/test-workspace'') ''discovery'') empty_world) =
     Inl (CancelledError []) \<and>
   phase_field (read_progress (ProgressTracker_init ''/tmp/test-workspace'')
       (snd (run cancelled_collaborator sample_clock
          (PhaseRunner_init sample_config (StateManager_init ''/tmp/test-workspace'')
             (ProgressTracker_init ''/tmp/test-workspace'') ''discovery'') empty_world)))
     ''discovery'' ''status'' = Some (JStr ''in_progress'') \<and>
   phase_field (read_progress (ProgressTracker_init ''/tmp/test-workspace'')
       (snd (run cancelled_collaborator sample_clock
          (PhaseRunner_init sample_config (StateManager_init ''/tmp/test-workspace'')
             (ProgressTracker_init ''/tmp/test-workspace'') ''discovery'') empty_world)))
     ''discovery'' ''error'' = None"
  by (simp add: sample_run_defs cancelled_collaborator_def)

section \<open>Properties of the Orchestrator\<close>

text \<open>
  Claim C10. When the Phase Runner returns a falsy result for a phase (an empty dictionary,
  as well as \<^verbatim>\<open>None\<close>), that round of the loop prints the phase-failure line and the loop
  ends with \<open>False\<close> in the state the Phase Runner left plus that line: no gate message,
  and nothing of the phases in \<open>rest\<close>.
\<close>

theorem falsy_result_is_phase_failure:
  assumes "run execute_phase utcnow
             (PhaseRunner_init (config self) (state_manager self) (progress_tracker self) phase)
             (print (''Starting phase: '' @ phase) w) = (Inr result, w1)"
      and "\<not> truthy result"
  shows "run_phases execute_phase utcnow self (phase # rest) w =
           (Inr False, print (''Phase '' @ phase @ '' failed'') w1)"
  using assms by simp

theorem falsy_result_is_phase_failure_witness:
  "run_phases empty_dict_collaborator sample_clock (Orchestrator_init sample_config)
      (''discovery'' # [''narrowing'', ''generation'', ''migration'', ''validation'']) empty_world =
     (Inr False, print ''Phase discovery failed''
        (snd (run empty_dict_collaborator sample_clock
           (PhaseRunner_init sample_config (StateManager_init ''/tmp/test-workspace'')
              (ProgressTracker_init ''/tmp/test-workspace'') ''discovery'')
           (print ''Starting phase: discovery'' empty_world)))) \<and>
   fst (run_pipeline empty_dict_collaborator sample_clock (Orchestrator_init sample_config) empty_world) =
     Inr False \<and>
   stdout (snd (run_pipeline empty_dict_collaborator sample_clock (Orchestrator_init sample_config) empty_world)) =
     [''Starting phase: discovery'', ''Phase discovery failed'']"
proof -
  let ?self = "Orchestrator_init sample_config"
  let ?r = "PhaseRunner_init (config ?self) (state_manager ?self) (progress_tracker ?self) ''discovery''"
  let ?w1 = "snd (run empty_dict_collaborator sample_clock ?r (print (''Starting phase: '' @ ''discovery'') empty_world))"
  have a1: "run empty_dict_collaborator sample_clock ?r (print (''Starting phase: '' @ ''discovery'') empty_world) =
      (Inr (JObj []), ?w1)"
    by (simp add: sample_run_defs empty_dict_collaborator_def)
  have a2: "\<not> truthy (JObj [])" by simp
  from falsy_result_is_phase_failure[OF a1 a2, of "[''narrowing'', ''generation'', ''migration'', ''validation'']"]
  have "run_phases empty_dict_collaborator sample_clock ?self
      (''discovery'' # [''narrowing'', ''generation'', ''migration'', ''validation'']) empty_world =
     (Inr False, print (''Phase '' @ ''discovery'' @ '' failed'') ?w1)" .
  moreover have "fst (run_pipeline empty_dict_collaborator sample_clock ?self empty_world) = Inr False"
    by (simp add: sample_run_defs empty_dict_collaborator_def)
  moreover have "stdout (snd (run_pipeline empty_dict_collaborator sample_clock ?self empty_world)) =
     [''Starting phase: discovery'', ''Phase discovery failed'']"
    by (simp add: sample_run_defs empty_dict_collaborator_def)
  ultimately show ?thesis
    by (simp add: Orchestrator_init_def sample_config_def)
qed

lemma mark_phase_frame:
  "p \<noteq> progress_file pt \<Longrightarrow> mark_phase pt phase items w = (r, w') \<Longrightarrow> files w' p = files w p"
  by (auto simp: mark_phase_def write_progress_def tick_def split: sum.splits)

lemma run_except_frame:
  "p \<noteq> progress_file (pr_progress_tracker self) \<Longrightarrow>
   files (snd (run_except utcnow self e w)) p = files w p"
  by (auto simp: run_except_def mark_phase_failed_def split: prod.splits sum.splits
      dest: mark_phase_frame)

lemma run_frame:
  assumes "\<forall>ph fs. snd (execute_phase ph fs) p = fs p"
      and "p \<noteq> progress_file (pr_progress_tracker self)"
  shows "files (snd (run execute_phase utcnow self w)) p = files w p"
proof -
  let ?pt = "pr_progress_tracker self"
  obtain r1 w1 where m: "mark_phase_started utcnow ?pt (pr_phase self) w = (r1, w1)"
    by (cases "mark_phase_started utcnow ?pt (pr_phase self) w")
  have f1: "files w1 p = files w p"
    by (rule mark_phase_frame[OF assms(2) m[unfolded mark_phase_started_def]])
  show ?thesis
  proof (cases r1)
    case (Inl e)
    then show ?thesis using m f1 by (simp add: run_def)
  next
    case (Inr u)
    obtain out fs where x: "execute_phase (pr_phase self) (files w1) = (out, fs)"
      by (cases "execute_phase (pr_phase self) (files w1)")
    have f2: "fs p = files w p" using assms(1) x f1 by (metis snd_conv)
    let ?w2 = "w1\<lparr>files := fs\<rparr>"
    have f2': "files ?w2 p = files w p" using f2 by simp
    show ?thesis
    proof (cases out)
      case (Inl e)
      then show ?thesis
        using m Inr x run_except_frame[OF assms(2), of utcnow e ?w2] f2'
        by (simp add: run_def)
    next
      case (Inr result)
      let ?m = "if truthy result
                then mark_phase_completed utcnow ?pt (pr_phase self)
                       (''Phase '' @ pr_phase self @ '' completed successfully'') ?w2
                else mark_phase_failed utcnow ?pt (pr_phase self)
                       (''Phase '' @ pr_phase self @ '' produced no results'') ?w2"
      obtain r3 w3 where m3: "?m = (r3, w3)" by (cases ?m)
      have f3: "files w3 p = files w p"
        using m3 f2' assms(2)
        by (auto simp: mark_phase_completed_def mark_phase_failed_def split: if_splits
            dest: mark_phase_frame)
      show ?thesis
      proof (cases r3)
        case (Inl e)
        then show ?thesis
          using m \<open>r1 = Inr u\<close> x Inr m3 run_except_frame[OF assms(2), of utcnow e w3] f3
          by (simp add: run_def)
      next
        case (Inr u')
        then show ?thesis
          using m \<open>r1 = Inr u\<close> x \<open>out = Inr result\<close> m3 f3
          by (simp add: run_def)
      qed
    qed
  qed
qed

lemma validate_phase_result_frame:
  "files (snd (validate_phase_result phase result w)) p = files w p"
  by (simp add: validate_phase_result_def print_def split: sum.splits exn.splits)

lemma run_phases_frame:
  assumes "\<forall>ph fs. snd (execute_phase ph fs) p = fs p"
      and "p \<noteq> progress_file (progress_tracker self)"
  shows "files (snd (run_phases execute_phase utcnow self phases w)) p = files w p"
proof (induction phases arbitrary: w)
  case Nil
  then show ?case by simp
next
  case (Cons phase rest)
  let ?r = "PhaseRunner_init (config self) (state_manager self) (progress_tracker self) phase"
  let ?w0 = "print (''Starting phase: '' @ phase) w"
  obtain out w1 where r: "run execute_phase utcnow ?r ?w0 = (out, w1)"
    by (cases "run execute_phase utcnow ?r ?w0")
  have f1: "files w1 p = files w p"
    using run_frame[OF assms(1), of ?r utcnow ?w0] assms(2) r
    by (simp add: PhaseRunner_init_def print_def)
  show ?case
  proof (cases out)
    case (Inl e)
    then show ?thesis using r f1 by simp
  next
    case (Inr result)
    show ?thesis
    proof (cases "truthy result")
      case False
      then show ?thesis using r Inr f1 by (simp add: print_def)
    next
      case True
      obtain v w2 where g: "validate_phase_result phase result w1 = (v, w2)"
        by (cases "validate_phase_result phase result w1")
      have f2: "files w2 p = files w p"
        using validate_phase_result_frame[of phase result w1 p] g f1 by simp
      show ?thesis
      proof (cases v)
        case (Inl e)
        then show ?thesis using r \<open>out = Inr result\<close> True g f2 by simp
      next
        case (Inr ok)
        then show ?thesis
          using r \<open>out = Inr result\<close> True g f2
            Cons.IH[of "print (''Phase '' @ phase @ '' completed successfully'') w2"]
          by (simp add: print_def)
      qed
    qed
  qed
qed

lemma split_slash_nonempty: "split_slash s \<noteq> []"
  by (induction s) (auto split: list.splits)

lemma split_slash_append:
  "CHR ''/'' \<notin> set t \<Longrightarrow>
   split_slash (s @ t) = butlast (split_slash s) @ [last (split_slash s) @ t]"
proof (induction s)
  case Nil
  then show ?case by (induction t) auto
next
  case (Cons c cs)
  obtain y ys where S: "split_slash cs = y # ys"
    using split_slash_nonempty[of cs] by (cases "split_slash cs") auto
  show ?case
    using Cons S by (cases ys) auto
qed

lemma last_parts_result:
  "parts (P @ ''-result.json'') \<noteq> [] \<and>
   last (parts (P @ ''-result.json'')) = last (split_slash P) @ ''-result.json''"
proof -
  have s: "split_slash (P @ ''-result.json'') =
      butlast (split_slash P) @ [last (split_slash P) @ ''-result.json'']"
    by (rule split_slash_append) simp
  show ?thesis
    by (simp add: parts_def s)
qed

lemma state_name_differs:
  "path_div p (P @ ''-result.json'') \<noteq> path_div p ''migration-progress.txt''"
proof -
  let ?a = "parts (P @ ''-result.json'')"
  have l: "?a \<noteq> []" "last ?a = last (split_slash P) @ ''-result.json''"
    using last_parts_result by auto
  have ne: "last ?a \<noteq> ''migration-progress.txt''"
  proof
    assume "last ?a = ''migration-progress.txt''"
    then have "last (last (split_slash P) @ ''-result.json'') = last ''migration-progress.txt''"
      using l(2) by simp
    then show False by simp
  qed
  have "snd (path_div p (P @ ''-result.json'')) \<noteq> snd (path_div p ''migration-progress.txt'')"
  proof
    assume e: "snd (path_div p (P @ ''-result.json'')) = snd (path_div p ''migration-progress.txt'')"
    have r: "snd (path_div p ''migration-progress.txt'') = snd p @ [''migration-progress.txt'']"
      by (simp add: path_div_def anchor_def parts_def)
    have "last (snd (path_div p (P @ ''-result.json''))) = last ?a"
      using l(1) by (simp add: path_div_def Path_def)
    then show False using e r ne by simp
  qed
  then show ?thesis by metis
qed

lemma state_file_not_progress_file:
  "get_state_file (StateManager_init wd) P \<noteq> progress_file (ProgressTracker_init wd)"
  using state_name_differs[of "Path wd" P]
  by (simp add: get_state_file_def StateManager_init_def ProgressTracker_init_def PROGRESS_FILE_def)

text \<open>
  Claim C2, as amended. The Orchestrator itself never writes to the Result Store, on a gate
  pass or otherwise: for an orchestrator built from a configuration and a phase \<open>P\<close> whose
  result file the collaborator does not write, \<open>get_result\<close> after the whole run returns
  what it returned before the run. A result is in the store only when the collaborator put
  it there.
\<close>

theorem orchestrator_never_saves:
  assumes "\<forall>phase fs. snd (execute_phase phase fs) (get_state_file (state_manager self) P) =
             fs (get_state_file (state_manager self) P)"
      and "self = Orchestrator_init cfg"
  shows "get_result (state_manager self) P (snd (run_pipeline execute_phase utcnow self w)) =
         get_result (state_manager self) P w"
proof -
  let ?p = "get_state_file (state_manager self) P"
  have ne: "?p \<noteq> progress_file (progress_tracker self)"
    using state_file_not_progress_file by (simp add: assms(2) Orchestrator_init_def)
  let ?w0 = "init_progress utcnow (progress_tracker self) (project_name (config self)) w"
  have f0: "files ?w0 ?p = files w ?p"
    using ne by (simp add: init_progress_def write_progress_def tick_def Let_def)
  have "files (snd (run_phases execute_phase utcnow self PHASES ?w0)) ?p = files w ?p"
    using run_phases_frame[OF assms(1) ne, of utcnow PHASES ?w0] f0 by simp
  then have "files (snd (run_pipeline execute_phase utcnow self w)) ?p = files w ?p"
    by (cases "run_phases execute_phase utcnow self PHASES ?w0")
       (auto simp: run_pipeline_def print_def split: sum.splits)
  then show ?thesis by (simp add: get_result_def)
qed


theorem orchestrator_never_saves_witness:
  "get_result (state_manager (Orchestrator_init sample_config)) ''discovery''
     (snd (run_pipeline discovery_only_collaborator sample_clock (Orchestrator_init sample_config)
        empty_world)) =
   get_result (state_manager (Orchestrator_init sample_config)) ''discovery'' empty_world"
  using orchestrator_never_saves
    [of discovery_only_collaborator "Orchestrator_init sample_config" "''discovery''" sample_config
        sample_clock empty_world]
  by (simp add: discovery_only_collaborator_def)

text \<open>
  The claim as stated fails: the collaborator returns the sample discovery result, the
  discovery gate passes (the run goes on to narrowing), and the discovery slot of the
  Result Store is still empty at the end.
\<close>

theorem orchestrator_persists_counterexample:
  "fst (validate_discovery_gate sample_discovery_result) = Inr () \<and>
   fst (run discovery_only_collaborator sample_clock
          (PhaseRunner_init sample_config (StateManager_init ''/tmp/test-workspace'')
             (ProgressTracker_init ''/tmp/test-workspace'') ''discovery'')
          (print ''Starting phase: discovery''
             (init_progress sample_clock (ProgressTracker_init ''/tmp/test-workspace'')
                ''test-migration'' empty_world))) = Inr sample_discovery_result \<and>
   stdout (snd (run_pipeline discovery_only_collaborator sample_clock
                  (Orchestrator_init sample_config) empty_world)) =
     [''Starting phase: discovery'', ''Phase discovery completed successfully'',
      ''Starting phase: narrowing'', ''Phase narrowing failed''] \<and>
   get_result (state_manager (Orchestrator_init sample_config)) ''discovery''
     (snd (run_pipeline discovery_only_collaborator sample_clock
             (Orchestrator_init sample_config) empty_world)) = JNull \<and>
   sample_discovery_result \<noteq> JNull"
  by (simp add: sample_run_defs discovery_only_collaborator_def)

section \<open>Properties of the Report Bridge\<close>

lemma foldl_snoc_map: "foldl (\<lambda>acc x. acc @ [f x]) a xs = a @ map f xs"
  by (induction xs arbitrary: a) simp_all

lemma foldl_append_concat: "foldl (\<lambda>acc x. acc @ g x) a xs = a @ concat (map g xs)"
  by (induction xs arbitrary: a) simp_all

lemma parse_single_xml_map:
  "parse_single_xml (Tree root) = map testcase_check (iter ''testcase'' root)"
  by (simp add: parse_single_xml_def foldl_snoc_map)

lemma parse_junit_xml_concat:
  "listing pfs (get_test_report_dir self) = Some entries \<Longrightarrow>
   parse_junit_xml self pfs =
     concat (map (\<lambda>entry. parse_single_xml (snd entry)) (sorted_glob_xml entries))"
  by (simp add: parse_junit_xml_def get_test_report_dir_def foldl_append_concat)

lemma sorted_glob_xml_order:
  "sorted (map fst (sorted_glob_xml entries))"
  "set (sorted_glob_xml entries) = {e \<in> set entries. endswith (fst e) ''.xml''}"
  by (simp_all add: sorted_glob_xml_def)

text \<open>
  The elements \<open>iter\<close> gives are the elements of the document with that tag, at any depth,
  in document order.
\<close>

lemma filter_concat_map:
  "filter P (concat (map f xs)) = concat (map (\<lambda>x. filter P (f x)) xs)"
  by (induction xs) simp_all

lemma iter_all_elements: "iter t e = filter (\<lambda>x. el_tag x = t) (all_elements e)"
proof (induction t e rule: iter.induct)
  case (1 t tg a tx cs)
  have "concat (map (iter t) cs) =
        concat (map (\<lambda>c. filter (\<lambda>x. el_tag x = t) (all_elements c)) cs)"
    using 1 by (simp cong: map_cong)
  then show ?case by (simp add: filter_concat_map)
qed

text \<open>
  Claim C6. A check is named by the case's class name, a dot and the case's name. The
  markers are tried in the source's order: a skipped marker gives a passed check with
  details \<open>SKIPPED\<close>; otherwise a failure marker, or else an error marker, gives a failed
  check whose details are the first 500 characters of the marker's message attribute, or of
  its body text when it has no such attribute; a case with none of the three gives a passed
  check with details \<open>PASSED\<close>. A report gives one check for each of its elements
  tagged \<open>testcase\<close>, at whatever depth, in document order, and none for any other
  element (none at all when it does not parse); the reports of the directory are taken in
  the order of their names, each contributing its checks in turn.
\<close>

theorem report_case_mapping:
  "check_name (testcase_check tc) = attr_get tc ''classname'' [] @ ''.'' @ attr_get tc ''name'' [] \<and>
   (find_child tc ''skipped'' \<noteq> None \<longrightarrow>
      passed (testcase_check tc) \<and> details (testcase_check tc) = ''SKIPPED'') \<and>
   (find_child tc ''skipped'' = None \<and>
    (find_child tc ''failure'' = Some node \<or>
     find_child tc ''failure'' = None \<and> find_child tc ''error'' = Some node) \<longrightarrow>
      \<not> passed (testcase_check tc) \<and>
      details (testcase_check tc) =
        take 500 (case map_of (el_attrib node) ''message'' of
                    Some m \<Rightarrow> m
                  | None \<Rightarrow> (case el_text node of Some t \<Rightarrow> t | None \<Rightarrow> [])) \<and>
      length (details (testcase_check tc)) \<le> 500) \<and>
   (find_child tc ''skipped'' = None \<and> find_child tc ''failure'' = None \<and>
    find_child tc ''error'' = None \<longrightarrow>
      passed (testcase_check tc) \<and> details (testcase_check tc) = ''PASSED'') \<and>
   parse_single_xml (Tree root) = map testcase_check (iter ''testcase'' root) \<and>
   iter ''testcase'' root = filter (\<lambda>e. el_tag e = ''testcase'') (all_elements root) \<and>
   length (parse_single_xml (Tree root)) =
     length (filter (\<lambda>e. el_tag e = ''testcase'') (all_elements root)) \<and>
   parse_single_xml ParseError = [] \<and>
   (listing pfs (get_test_report_dir self) = Some entries \<longrightarrow>
      parse_junit_xml self pfs =
        concat (map (\<lambda>entry. parse_single_xml (snd entry)) (sorted_glob_xml entries)) \<and>
      sorted (map fst (sorted_glob_xml entries)) \<and>
      set (sorted_glob_xml entries) = {e \<in> set entries. endswith (fst e) ''.xml''})"
proof (intro conjI impI)
  show "check_name (testcase_check tc) = attr_get tc ''classname'' [] @ ''.'' @ attr_get tc ''name'' []"
    by (simp add: testcase_check_def failure_check_def Let_def split: option.splits)
  show "parse_single_xml (Tree root) = map testcase_check (iter ''testcase'' root)"
    by (rule parse_single_xml_map)
  show "iter ''testcase'' root = filter (\<lambda>e. el_tag e = ''testcase'') (all_elements root)"
    by (rule iter_all_elements)
  show "length (parse_single_xml (Tree root)) =
     length (filter (\<lambda>e. el_tag e = ''testcase'') (all_elements root))"
    by (simp add: parse_single_xml_map iter_all_elements)
  show "parse_single_xml ParseError = []"
    by (simp add: parse_single_xml_def)
next
  assume "find_child tc ''skipped'' \<noteq> None"
  then show "passed (testcase_check tc)" "details (testcase_check tc) = ''SKIPPED''"
    by (auto simp: testcase_check_def Let_def split: option.splits)
next
  assume a: "find_child tc ''skipped'' = None \<and>
    (find_child tc ''failure'' = Some node \<or>
     find_child tc ''failure'' = None \<and> find_child tc ''error'' = Some node)"
  then have c: "testcase_check tc =
      failure_check (attr_get tc ''classname'' [] @ ''.'' @ attr_get tc ''name'' []) node"
    by (auto simp: testcase_check_def Let_def)
  show "\<not> passed (testcase_check tc)"
    by (simp add: c failure_check_def Let_def)
  show "details (testcase_check tc) =
        take 500 (case map_of (el_attrib node) ''message'' of
                    Some m \<Rightarrow> m
                  | None \<Rightarrow> (case el_text node of Some t \<Rightarrow> t | None \<Rightarrow> []))"
    by (simp add: c failure_check_def attr_get_def Let_def)
  show "length (details (testcase_check tc)) \<le> 500"
    by (simp add: c failure_check_def Let_def)
next
  assume "find_child tc ''skipped'' = None \<and> find_child tc ''failure'' = None \<and>
    find_child tc ''error'' = None"
  then show "passed (testcase_check tc)" "details (testcase_check tc) = ''PASSED''"
    by (simp_all add: testcase_check_def Let_def)
next
  assume l: "listing pfs (get_test_report_dir self) = Some entries"
  show "parse_junit_xml self pfs =
        concat (map (\<lambda>entry. parse_single_xml (snd entry)) (sorted_glob_xml entries))"
    by (rule parse_junit_xml_concat[OF l])
  show "sorted (map fst (sorted_glob_xml entries))"
    by (rule sorted_glob_xml_order)
  show "set (sorted_glob_xml entries) = {e \<in> set entries. endswith (fst e) ''.xml''}"
    by (rule sorted_glob_xml_order)
qed


lemmas sample_report_defs =
  testcase_check_def failure_check_def find_child_def attr_get_def Let_def
  passing_case_def failing_case_def skipped_case_def sample_report_def reported_project_def
  parse_junit_xml_def parse_single_xml_def sorted_glob_xml_def endswith_def
  get_test_report_dir_def TEST_RESULTS_DIR_def path_join_def

theorem report_case_mapping_witness:
  "testcase_check passing_case =
     \<lparr>check_name = ''com.example.ApiClientTest.T1'', passed = True, details = ''PASSED''\<rparr> \<and>
   testcase_check failing_case =
     \<lparr>check_name = ''com.example.ApiClientTest.T2'', passed = False,
      details = replicate 500 (CHR ''x'')\<rparr> \<and>
   testcase_check skipped_case =
     \<lparr>check_name = ''com.example.ApiClientTest.T5'', passed = True, details = ''SKIPPED''\<rparr> \<and>
   parse_junit_xml \<lparr>repo_path = ''/repo''\<rparr> reported_project =
     [testcase_check passing_case, testcase_check failing_case, testcase_check skipped_case] \<and>
   testcase_check error_case =
     \<lparr>check_name = ''com.example.OtherTest.E1'', passed = False,
      details = ''IllegalStateException: no connection''\<rparr> \<and>
   iter ''testcase'' nested_report = [error_case, skipped_case, passing_case] \<and>
   parse_single_xml (Tree nested_report) =
     [testcase_check error_case, testcase_check skipped_case, testcase_check passing_case] \<and>
   parse_junit_xml \<lparr>repo_path = ''/repo''\<rparr> nested_project =
     [testcase_check error_case, testcase_check skipped_case, testcase_check passing_case,
      testcase_check passing_case, testcase_check failing_case, testcase_check skipped_case]"
proof -
  let ?enode = "Element ''error'' [(''type'', ''java.lang.IllegalStateException'')]
                  (Some ''IllegalStateException: no connection'') []"
  let ?nentries = "[(''TEST-z.xml'', Tree sample_report),
         (''notes.txt'', Tree failing_case),
         (''TEST-broken.xml'', ParseError),
         (''TEST-a.xml'', Tree nested_report)]"
  note n1 = report_case_mapping
    [of error_case ?enode nested_report nested_project "\<lparr>repo_path = ''/repo''\<rparr>" ?nentries]
  have ne: "find_child error_case ''skipped'' = None \<and>
      (find_child error_case ''failure'' = Some ?enode \<or>
       find_child error_case ''failure'' = None \<and> find_child error_case ''error'' = Some ?enode)"
    by (simp add: find_child_def error_case_def)
  have c4: "testcase_check error_case =
     \<lparr>check_name = ''com.example.OtherTest.E1'', passed = False,
      details = ''IllegalStateException: no connection''\<rparr>"
    using n1 ne by (simp add: attr_get_def error_case_def)
  have all: "all_elements nested_report =
      [nested_report,
       Element ''testsuite'' [(''name'', ''com.example.OtherTest'')] None
          [Element ''properties'' [] None [Element ''property'' [(''name'', ''os'')] None []],
           error_case,
           Element ''testsuite'' [(''name'', ''inner'')] None [skipped_case]],
       Element ''properties'' [] None [Element ''property'' [(''name'', ''os'')] None []],
       Element ''property'' [(''name'', ''os'')] None [],
       error_case,
       Element ''error'' [(''type'', ''java.lang.IllegalStateException'')]
          (Some ''IllegalStateException: no connection'') [],
       Element ''testsuite'' [(''name'', ''inner'')] None [skipped_case],
       skipped_case,
       Element ''skipped'' [] None [],
       passing_case]"
    by (simp add: nested_report_def error_case_def skipped_case_def passing_case_def)
  have c5: "iter ''testcase'' nested_report = [error_case, skipped_case, passing_case]"
    using n1 by (simp add: all) (simp add: nested_report_def error_case_def skipped_case_def
        passing_case_def)
  have c6: "parse_single_xml (Tree nested_report) =
     [testcase_check error_case, testcase_check skipped_case, testcase_check passing_case]"
    using n1 by (simp add: c5)
  have nl: "listing nested_project (get_test_report_dir \<lparr>repo_path = ''/repo''\<rparr>) = Some ?nentries"
    by (simp add: nested_project_def get_test_report_dir_def TEST_RESULTS_DIR_def path_join_def)
  have ng: "sorted_glob_xml ?nentries =
      [(''TEST-a.xml'', Tree nested_report), (''TEST-broken.xml'', ParseError),
       (''TEST-z.xml'', Tree sample_report)]"
    by (simp add: sorted_glob_xml_def endswith_def)
  have flat: "parse_single_xml (Tree sample_report) =
     [testcase_check passing_case, testcase_check failing_case, testcase_check skipped_case]"
    by (simp add: parse_single_xml_map sample_report_def passing_case_def failing_case_def
        skipped_case_def)
  have c7: "parse_junit_xml \<lparr>repo_path = ''/repo''\<rparr> nested_project =
     [testcase_check error_case, testcase_check skipped_case, testcase_check passing_case,
      testcase_check passing_case, testcase_check failing_case, testcase_check skipped_case]"
    using n1 nl by (simp add: ng c6 flat)
  let ?node = "Element ''failure'' [(''message'', replicate 600 (CHR ''x''))]
                 (Some ''AssertionFailedError'') []"
  let ?entries = "[(''notes.txt'', Tree failing_case),
         (''TEST-com.example.ApiClientTest.xml'', Tree sample_report),
         (''TEST-broken.xml'', ParseError)]"
  let ?self = "\<lparr>repo_path = ''/repo''\<rparr>"
  have l: "listing reported_project (get_test_report_dir ?self) = Some ?entries"
    by (simp add: reported_project_def get_test_report_dir_def TEST_RESULTS_DIR_def path_join_def)
  have g: "sorted_glob_xml ?entries =
      [(''TEST-broken.xml'', ParseError),
       (''TEST-com.example.ApiClientTest.xml'', Tree sample_report)]"
    by (simp add: sorted_glob_xml_def endswith_def)
  have p: "find_child passing_case ''skipped'' = None \<and> find_child passing_case ''failure'' = None \<and>
      find_child passing_case ''error'' = None"
    by (simp add: find_child_def passing_case_def)
  have f: "find_child failing_case ''skipped'' = None \<and>
      (find_child failing_case ''failure'' = Some ?node \<or>
       find_child failing_case ''failure'' = None \<and> find_child failing_case ''error'' = Some ?node)"
    by (simp add: find_child_def failing_case_def)
  have k: "find_child skipped_case ''skipped'' \<noteq> None"
    by (simp add: find_child_def skipped_case_def)
  note t1 = report_case_mapping[of passing_case ?node sample_report reported_project ?self ?entries]
  note t2 = report_case_mapping[of failing_case ?node sample_report reported_project ?self ?entries]
  note t3 = report_case_mapping[of skipped_case ?node sample_report reported_project ?self ?entries]
  have c1: "testcase_check passing_case =
     \<lparr>check_name = ''com.example.ApiClientTest.T1'', passed = True, details = ''PASSED''\<rparr>"
    using t1 p by (simp add: attr_get_def passing_case_def)
  have c2: "testcase_check failing_case =
     \<lparr>check_name = ''com.example.ApiClientTest.T2'', passed = False,
      details = replicate 500 (CHR ''x'')\<rparr>"
    using t2 f by (simp add: attr_get_def failing_case_def)
  have c3: "testcase_check skipped_case =
     \<lparr>check_name = ''com.example.ApiClientTest.T5'', passed = True, details = ''SKIPPED''\<rparr>"
    using t3 k by (simp add: attr_get_def skipped_case_def)
  have "parse_junit_xml ?self reported_project =
      concat (map (\<lambda>entry. parse_single_xml (snd entry)) (sorted_glob_xml ?entries))"
    using t2 l by blast
  also have "\<dots> = map testcase_check (iter ''testcase'' sample_report)"
    using t2 by (simp add: g)
  also have "\<dots> = [testcase_check passing_case, testcase_check failing_case, testcase_check skipped_case]"
    by (simp add: sample_report_def passing_case_def failing_case_def skipped_case_def)
  finally show ?thesis using c1 c2 c3 c4 c5 c6 c7 by simp
qed

text \<open>
  Claim C1, as amended. With the outcome of the build command and the checks parsed from
  the reports it left: when there is at least one parsed check, \<open>run_tests\<close> returns
  exactly the parsed checks, whether the build failed or not; when there is none, it returns
  exactly one check named \<open>gradle-build\<close>, failed and carrying standard output followed
  by standard error when the command's exit status is not zero, passed and carrying
  \<open>Build succeeded, no test cases found\<close> when it is zero.
\<close>

theorem run_tests_checks:
  "(let (result, pfs') =
          subprocess_run
            ([''gradle'', ''test'', ''--daemon'', ''--continue''] @
               (case extra_args of None \<Rightarrow> [] | Some a \<Rightarrow> a))
            (repo_path self) pfs;
        checks = parse_junit_xml self pfs'
    in (checks \<noteq> [] \<longrightarrow> run_tests subprocess_run self extra_args pfs = (checks, pfs')) \<and>
       (checks = [] \<and> returncode result \<noteq> 0 \<longrightarrow>
          run_tests subprocess_run self extra_args pfs =
            ([\<lparr>check_name = ''gradle-build'', passed = False,
                details = proc_stdout result @ proc_stderr result\<rparr>], pfs')) \<and>
       (checks = [] \<and> returncode result = 0 \<longrightarrow>
          run_tests subprocess_run self extra_args pfs =
            ([\<lparr>check_name = ''gradle-build'', passed = True,
                details = ''Build succeeded, no test cases found''\<rparr>], pfs')))"
  by (simp add: run_tests_def invoke_gradle_def Let_def split: prod.splits)

theorem run_tests_checks_witness:
  "run_tests failing_build \<lparr>repo_path = ''/repo''\<rparr> None sample_project =
     ([\<lparr>check_name = ''gradle-build'', passed = False,
         details = ''> Task :compileJava FAILEDerror: package does not exist''\<rparr>], sample_project) \<and>
   run_tests successful_build \<lparr>repo_path = ''/repo''\<rparr> None sample_project =
     ([\<lparr>check_name = ''gradle-build'', passed = True,
         details = ''Build succeeded, no test cases found''\<rparr>], sample_project) \<and>
   run_tests failing_build \<lparr>repo_path = ''/repo''\<rparr> (Some [''--info'']) reported_project =
     (parse_junit_xml \<lparr>repo_path = ''/repo''\<rparr> reported_project, reported_project) \<and>
   length (parse_junit_xml \<lparr>repo_path = ''/repo''\<rparr> reported_project) = 3"
proof -
  let ?self = "\<lparr>repo_path = ''/repo''\<rparr>"
  have e: "parse_junit_xml ?self sample_project = []"
    by (simp add: parse_junit_xml_def sample_project_def)
  have n: "parse_junit_xml ?self reported_project \<noteq> []"
          "length (parse_junit_xml ?self reported_project) = 3"
    by (simp_all add: sample_report_defs)
  show ?thesis
    using run_tests_checks[of failing_build None ?self sample_project]
      run_tests_checks[of successful_build None ?self sample_project]
      run_tests_checks[of failing_build "Some [''--info'']" ?self reported_project]
      e n
    by (simp add: failing_build_def successful_build_def)
qed

text \<open>
  The claim as stated fails: a successful build with no parsed test case yields one check,
  not none.
\<close>

theorem run_tests_synthetic_counterexample:
  "returncode (fst (successful_build [''gradle'', ''test'', ''--daemon'', ''--continue''] ''/repo''
      sample_project)) = 0 \<and>
   parse_junit_xml \<lparr>repo_path = ''/repo''\<rparr> sample_project = [] \<and>
   fst (run_tests successful_build \<lparr>repo_path = ''/repo''\<rparr> None sample_project) =
     [\<lparr>check_name = ''gradle-build'', passed = True,
       details = ''Build succeeded, no test cases found''\<rparr>] \<and>
   fst (run_tests successful_build \<lparr>repo_path = ''/repo''\<rparr> None sample_project) \<noteq> []"
  by (simp add: run_tests_def invoke_gradle_def successful_build_def parse_junit_xml_def
      sample_project_def)

section \<open>Properties of the configuration loader\<close>

lemma Config_init_Inr_no_errors:
  "Config_init d = Inr c \<Longrightarrow> Config_errors d = []"
  by (auto simp: Config_init_def split: option.splits if_splits)

lemma empty_repositories_error:
  "d_repositories d = Some [] \<Longrightarrow> Config_errors d \<noteq> []"
  by (simp add: Config_errors_def validate_repositories_def repositories_not_empty_def)

lemma Config_init_errors: "Config_errors d \<noteq> [] \<Longrightarrow> Config_init d = Inl (Config_errors d)"
  by (auto simp: Config_init_def split: option.splits)

text \<open>
  Claim C9, as amended. Loading a configuration whose repository list is empty fails with
  the \<^verbatim>\<open>ValueError\<close> of \<open>load_config\<close>. An empty endpoint list is no reason to fail:
  whenever a configuration loads, the same configuration with its endpoint list emptied
  loads too, as the same \<open>Config\<close> with no endpoints.
\<close>

theorem empty_lists_in_config:
  "(d_repositories d1 = Some [] \<longrightarrow>
      (\<exists>msg. load_config config_files (FromDict d1) = Inl (ValueError msg))) \<and>
   (load_config config_files (FromDict d2) = Inr c \<longrightarrow>
      load_config config_files (FromDict (d2\<lparr>d_rest_endpoints := Some []\<rparr>)) =
        Inr (c\<lparr>rest_endpoints := []\<rparr>))"
proof (intro conjI impI)
  assume "d_repositories d1 = Some []"
  then have "Config_init d1 = Inl (Config_errors d1)"
    using empty_repositories_error Config_init_errors by blast
  then show "\<exists>msg. load_config config_files (FromDict d1) = Inl (ValueError msg)"
    by (simp add: load_config_def)
next
  assume a: "load_config config_files (FromDict d2) = Inr c"
  then have i: "Config_init d2 = Inr c"
    by (simp add: load_config_def split: sum.splits)
  then have e: "Config_errors d2 = []" by (rule Config_init_Inr_no_errors)
  have e': "Config_errors (d2\<lparr>d_rest_endpoints := Some []\<rparr>) = []"
    using e by (simp add: Config_errors_def validate_rest_endpoints_def)
  have "Config_init (d2\<lparr>d_rest_endpoints := Some []\<rparr>) = Inr (c\<lparr>rest_endpoints := []\<rparr>)"
    using i e e' by (auto simp: Config_init_def split: option.splits if_splits)
  then show "load_config config_files (FromDict (d2\<lparr>d_rest_endpoints := Some []\<rparr>)) =
        Inr (c\<lparr>rest_endpoints := []\<rparr>)"
    by (simp add: load_config_def)
qed

lemmas sample_config_defs =
  load_config_def Config_init_def Config_errors_def required_def validate_repositories_def
  validate_rest_endpoints_def validate_Repository_def validate_RestEndpoint_def
  patterns_not_empty_def repositories_not_empty_def sample_config_dict_def sample_config_def
  validation_error_text_def

text \<open>
  The claim as stated fails: the sample configuration with an empty endpoint list loads.
\<close>

theorem empty_endpoints_counterexample:
  "d_rest_endpoints (sample_config_dict\<lparr>d_rest_endpoints := Some []\<rparr>) = Some [] \<and>
   load_config Map.empty (FromDict (sample_config_dict\<lparr>d_rest_endpoints := Some []\<rparr>)) =
     Inr (sample_config\<lparr>rest_endpoints := []\<rparr>)"
  by (simp add: sample_config_defs)

theorem empty_lists_in_config_witness:
  "(\<exists>msg. load_config Map.empty (FromDict (sample_config_dict\<lparr>d_repositories := Some []\<rparr>)) =
      Inl (ValueError msg)) \<and>
   load_config Map.empty (FromDict sample_config_dict) = Inr sample_config \<and>
   load_config Map.empty (FromDict (sample_config_dict\<lparr>d_rest_endpoints := Some []\<rparr>)) =
     Inr (sample_config\<lparr>rest_endpoints := []\<rparr>)"
proof -
  have l: "load_config Map.empty (FromDict sample_config_dict) = Inr sample_config"
    by (simp add: sample_config_defs)
  have r: "d_repositories (sample_config_dict\<lparr>d_repositories := Some []\<rparr>) = Some []"
    by simp
  show ?thesis
    using empty_lists_in_config
      [of "sample_config_dict\<lparr>d_repositories := Some []\<rparr>" Map.empty sample_config_dict
          sample_config] l r
    by blast
qed

end
